theory Spec2Isabelle
  imports Complex_Main
begin

section \<open>JavaScript values used by the program\<close>

text \<open>
  Strings are modelled as \<open>string\<close> (8-bit characters); the functions below agree with
  their JavaScript counterparts on ASCII text. Numbers that hold counters, timestamps and
  delays are modelled as \<open>nat\<close>, \<open>int\<close> and \<open>rat\<close>. Where the program converts a
  string to a number (\<open>Number\<close>), the rounding to an IEEE double is written out, because
  it decides comparisons of very large components.
\<close>

datatype jsnum = Num nat | PosInfinity | NaN

fun bitlen :: "nat \<Rightarrow> nat" where
  "bitlen n = (if n = 0 then 0 else Suc (bitlen (n div 2)))"

declare bitlen.simps [simp del]

definition round_to_double :: "nat \<Rightarrow> jsnum" where
  \<comment> \<open>Round to nearest, ties to even, with a 53-bit significand; overflow gives Infinity.\<close>
  "round_to_double n =
     (if n < 2 ^ 53 then Num n
      else let e = bitlen n - 53;
               q = n div 2 ^ e;
               r = n mod 2 ^ e;
               half = 2 ^ (e - 1);
               q' = (if r > half \<or> (r = half \<and> odd q) then q + 1 else q)
           in if q' * 2 ^ e \<ge> 2 ^ 1024 then PosInfinity else Num (q' * 2 ^ e))"

definition is_digit :: "char \<Rightarrow> bool" where
  "is_digit c = (48 \<le> (of_char c :: nat) \<and> (of_char c :: nat) \<le> 57)"

definition digit_val :: "char \<Rightarrow> nat" where
  "digit_val c = of_char c - 48"

definition decimal_value :: "string \<Rightarrow> nat" where
  "decimal_value s = foldl (\<lambda>acc c. acc * 10 + digit_val c) 0 s"

definition Number_js :: "string \<Rightarrow> jsnum" where
  \<comment> \<open>\<open>Number(s)\<close> for the strings the version code meets: the empty string is 0, a string
     of decimal digits is its value rounded to a double. Every other string is sent to NaN
     here; JavaScript also accepts surrounding white space, a sign, a fraction, an exponent
     and the 0x/0o/0b prefixes, which lie outside this model.\<close>
  "Number_js s = (if list_all is_digit s then round_to_double (decimal_value s) else NaN)"

fun split_dot :: "string \<Rightarrow> string list" where
  \<comment> \<open>\<open>s.split('.')\<close>: always at least one component.\<close>
  "split_dot [] = [[]]"
| "split_dot (c # cs) =
     (if c = CHR ''.'' then [] # split_dot cs
      else (case split_dot cs of [] \<Rightarrow> [[c]] | w # ws \<Rightarrow> (c # w) # ws))"

definition starts_with :: "string \<Rightarrow> string \<Rightarrow> bool" where
  "starts_with s sub = (take (length sub) s = sub)"

fun includes_str :: "string \<Rightarrow> string \<Rightarrow> bool" where
  \<comment> \<open>\<open>s.includes(sub)\<close>\<close>
  "includes_str [] sub = (sub = [])"
| "includes_str (c # cs) sub = (starts_with (c # cs) sub \<or> includes_str cs sub)"

definition to_lower_char :: "char \<Rightarrow> char" where
  "to_lower_char c =
     (if 65 \<le> (of_char c :: nat) \<and> (of_char c :: nat) \<le> 90
      then char_of (of_char c + (32::nat)) else c)"

definition toLowerCase :: "string \<Rightarrow> string" where
  "toLowerCase s = map to_lower_char s"



definition is_space :: "char \<Rightarrow> bool" where
  \<comment> \<open>The ASCII characters matched by \<open>\s\<close>: tab, line feed, vertical tab, form feed,
     carriage return and space.\<close>
  "is_space c = (of_char c \<in> {9, 10, 11, 12, 13, 32 :: nat})"

section \<open>Constants (config/constants.ts)\<close>

definition ZBF_MINIMUM :: string where "ZBF_MINIMUM = ''9.0.0''"
definition LEGACY_FIREWALL_DEPRECATED :: string where "LEGACY_FIREWALL_DEPRECATED = ''9.0.0''"
definition ADVANCED_STATS_MINIMUM :: string where "ADVANCED_STATS_MINIMUM = ''8.5.0''"

record feature_config =
  minimumVersion :: string
  requiredHardware :: "string list"
  deprecatedIn :: "string option"

definition ZONE_BASED_FIREWALL :: feature_config where
  "ZONE_BASED_FIREWALL =
     \<lparr>minimumVersion = ''9.0.0'',
      requiredHardware = [''UCG-Ultra'', ''UCG-Max'', ''UDM-Pro'', ''UDM-Base''],
      deprecatedIn = None\<rparr>"

definition LEGACY_FIREWALL :: feature_config where
  "LEGACY_FIREWALL =
     \<lparr>minimumVersion = ''6.0.0'', requiredHardware = [''all''], deprecatedIn = Some ''9.0.0''\<rparr>"




definition UCG_ULTRA :: string where "UCG_ULTRA = ''UCG-Ultra''"
definition UCG_MAX :: string where "UCG_MAX = ''UCG-Max''"
definition UDM_PRO :: string where "UDM_PRO = ''UDM-Pro''"
definition USG_PRO_4 :: string where "USG_PRO_4 = ''USG-Pro-4''"

section \<open>Version comparison (VersionDetector.isVersionAtLeast)\<close>

fun or_zero :: "jsnum option \<Rightarrow> jsnum" where
  \<comment> \<open>\<open>parts[i] || 0\<close>: an index past the end reads \<open>undefined\<close>; \<open>undefined\<close>, NaN
     and 0 are falsy.\<close>
  "or_zero None = Num 0"
| "or_zero (Some NaN) = Num 0"
| "or_zero (Some x) = x"

fun js_gt :: "jsnum \<Rightarrow> jsnum \<Rightarrow> bool" where
  "js_gt (Num a) (Num b) = (a > b)"
| "js_gt PosInfinity (Num b) = True"
| "js_gt _ _ = False"

definition js_lt :: "jsnum \<Rightarrow> jsnum \<Rightarrow> bool" where
  "js_lt a b = js_gt b a"

definition at_index :: "'a list \<Rightarrow> nat \<Rightarrow> 'a option" where
  \<comment> \<open>\<open>xs[i]\<close>, \<open>undefined\<close> out of range\<close>
  "at_index xs i = (if i < length xs then Some (xs ! i) else None)"

function isVersionAtLeast_loop :: "jsnum list \<Rightarrow> jsnum list \<Rightarrow> nat \<Rightarrow> bool" where
  "isVersionAtLeast_loop currentParts minimumParts i =
     (if i < max (length currentParts) (length minimumParts) then
        let currentPart = or_zero (at_index currentParts i);
            minimumPart = or_zero (at_index minimumParts i)
        in if js_gt currentPart minimumPart then True
           else if js_lt currentPart minimumPart then False
           else isVersionAtLeast_loop currentParts minimumParts (i + 1)
      else True)"
  by pat_completeness auto
termination
  by (relation "measure (\<lambda>(c, m, i). max (length c) (length m) - i)") auto

declare isVersionAtLeast_loop.simps [simp del]

definition isVersionAtLeast :: "string \<Rightarrow> string \<Rightarrow> bool" where
  "isVersionAtLeast current minimum =
     isVersionAtLeast_loop (map Number_js (split_dot current)) (map Number_js (split_dot minimum)) 0"

text \<open>
  The specification's reading of the comparison, written independently of the loop: the
  components as natural numbers, the shorter list padded with zeros, compared in the
  lexicographic order.
\<close>

definition version_components :: "string \<Rightarrow> nat list" where
  "version_components s = map decimal_value (split_dot s)"

definition pad_zeros :: "nat \<Rightarrow> nat list \<Rightarrow> nat list" where
  "pad_zeros n xs = xs @ replicate (n - length xs) 0"

definition lex_geq :: "nat list \<Rightarrow> nat list \<Rightarrow> bool" where
  "lex_geq a b =
     (let n = max (length a) (length b)
      in pad_zeros n a = pad_zeros n b \<or> (pad_zeros n b, pad_zeros n a) \<in> lexord {(x, y). x < y})"

definition decimal_version :: "string \<Rightarrow> bool" where
  \<comment> \<open>every dot-separated component is a non-empty string of decimal digits\<close>
  "decimal_version s = list_all (\<lambda>w. w \<noteq> [] \<and> list_all is_digit w) (split_dot s)"

definition exact_version :: "string \<Rightarrow> bool" where
  \<comment> \<open>every component is below \<open>2^53\<close>, where doubles hold integers exactly\<close>
  "exact_version s = list_all (\<lambda>n. n < 2 ^ 53) (version_components s)"

section \<open>Errors (utils/errors.ts, server/types.ts)\<close>

datatype ErrorCode =
    CONNECTION_FAILED | AUTHENTICATION_FAILED | NETWORK_TIMEOUT | SSL_ERROR
  | API_KEY_INVALID | API_RATE_LIMITED | API_ENDPOINT_NOT_FOUND | API_PERMISSION_DENIED
  | FEATURE_NOT_SUPPORTED | HARDWARE_INCOMPATIBLE | VERSION_INCOMPATIBLE
  | VALIDATION_ERROR | PARAMETER_MISSING | PARAMETER_INVALID
  | RESOURCE_NOT_FOUND | RESOURCE_CONFLICT | RESOURCE_LIMIT_EXCEEDED
  | INTERNAL_ERROR | CONFIG_ERROR | CACHE_ERROR | INITIALIZATION_ERROR
  | TOOL_REGISTRATION_ERROR | TOOL_NOT_FOUND | TOOL_DISABLED | CONNECTION_REQUIRED
  | FEATURE_NOT_AVAILABLE | EXECUTION_ERROR | UNKNOWN_FEATURE
  | CAPABILITY_DETECTION_FAILED | INVALID_DATA | SYSTEM_INFO_ERROR
  | RULE_CREATION_FAILED | RULE_UPDATE_FAILED | RULE_DELETION_FAILED | RULE_TOGGLE_FAILED
  | BLOCK_FAILED | UNBLOCK_FAILED | KICK_FAILED | RESTART_FAILED
  | ADOPTION_FAILED | UPGRADE_FAILED

text \<open>
  Values of type \<open>any\<close> (response bodies, tool parameters, error details, configuration
  values) are JSON-like trees. \<open>JUndefined\<close> stands for \<open>undefined\<close> and for an absent
  property.
\<close>

datatype json =
    JUndefined | JNull | JBool bool | JNum rat | JStr string
  | JArr "json list" | JObj "(string \<times> json) list"

record UniFiMCPError =
  message :: string
  code :: ErrorCode
  statusCode :: "nat option"
  details :: json
  retryable :: bool

text \<open>
  What a \<open>throw\<close> carries: an instance of \<open>UniFiMCPError\<close> (or of one of its subclasses),
  or any other \<open>Error\<close>, of which only the message is read.
\<close>

datatype thrown = McpError UniFiMCPError | OtherError string

fun error_message :: "thrown \<Rightarrow> string" where
  \<comment> \<open>\<open>(error as Error).message\<close>\<close>
  "error_message (McpError e) = message e"
| "error_message (OtherError m) = m"

definition new_UniFiMCPError :: "string \<Rightarrow> ErrorCode \<Rightarrow> nat option \<Rightarrow> json \<Rightarrow> UniFiMCPError" where
  \<comment> \<open>the constructor with \<open>retryable\<close> left at its default \<open>false\<close>\<close>
  "new_UniFiMCPError m c st d =
     \<lparr>message = m, code = c, statusCode = st, details = d, retryable = False\<rparr>"

definition truthy_str :: "string option \<Rightarrow> bool" where
  \<comment> \<open>truthiness of an optional string: \<open>undefined\<close>, \<open>null\<close> and the empty string are falsy\<close>
  "truthy_str v = (case v of None \<Rightarrow> False | Some s \<Rightarrow> s \<noteq> [])"

definition str_or_empty :: "string option \<Rightarrow> string" where
  "str_or_empty v = (case v of None \<Rightarrow> [] | Some s \<Rightarrow> s)"

definition json_of_str :: "string option \<Rightarrow> json" where
  "json_of_str v = (case v of None \<Rightarrow> JUndefined | Some s \<Rightarrow> JStr s)"

definition quoted :: "string \<Rightarrow> string" where
  \<comment> \<open>the text between single quotes\<close>
  "quoted s = [CHR 0x27] @ s @ [CHR 0x27]"

definition FeatureNotSupportedError :: "string \<Rightarrow> string option \<Rightarrow> string option \<Rightarrow> UniFiMCPError" where
  "FeatureNotSupportedError feature requiredVersion currentVersion =
     \<lparr>message = ''Feature '' @ quoted feature @ '' is not supported'' @
        (if truthy_str requiredVersion
         then '' (requires version '' @ str_or_empty requiredVersion @
              (if truthy_str currentVersion
               then '', current: '' @ str_or_empty currentVersion else []) @ '')''
         else []),
      code = FEATURE_NOT_SUPPORTED,
      statusCode = Some 501,
      details = JObj [(''feature'', JStr feature),
                      (''requiredVersion'', json_of_str requiredVersion),
                      (''currentVersion'', json_of_str currentVersion)],
      retryable = False\<rparr>"



section \<open>System information and capabilities (unifi/types.ts, server/types.ts)\<close>

datatype FirewallMode = Legacy | Zbf

record SystemInfo =
  version :: string
  buildNumber :: string
  buildTimestamp :: int
  hostname :: string
  timezone :: string
  uptime :: int
  firewallMode :: FirewallMode
  zbfSupported :: bool
  hardwareModel :: string
  hardwareRevision :: string
  ubntNetworkApplicationVersion :: string

record HardwareCapabilities =
  model :: string
  supportsAdvancedFirewall :: bool
  maxFirewallRules :: nat
  maxZones :: nat

record FeatureCapabilities =
  cap_version :: string
  supportsZBF :: bool
  supportsLegacyFirewall :: bool
  supportedEndpoints :: "string list"
  deprecatedEndpoints :: "string list"
  hardwareCapabilities :: HardwareCapabilities

record Availability =
  available :: bool
  reason :: "string option"
  alternativeTool :: "string option"
  av_minimumVersion :: "string option"

section \<open>VersionDetector: pure helpers\<close>

definition digits_then_dot :: "string \<Rightarrow> (string \<times> string) option" where
  \<comment> \<open>\<open>\d+\.\<close> at the head of the string: the digits and what follows the dot. \<open>\d+\<close> is
     greedy, and a shorter run of digits is never followed by a dot.\<close>
  "digits_then_dot s =
     (let a = takeWhile is_digit s
      in case dropWhile is_digit s of
           [] \<Rightarrow> None
         | c # r \<Rightarrow> if a \<noteq> [] \<and> c = CHR ''.'' then Some (a, r) else None)"

definition match_semver_at :: "string \<Rightarrow> string option" where
  \<comment> \<open>a match of \<open>\d+\.\d+\.\d+\<close> that starts at the head of the string\<close>
  "match_semver_at s =
     (case digits_then_dot s of
        None \<Rightarrow> None
      | Some (a, r2) \<Rightarrow>
          (case digits_then_dot r2 of
             None \<Rightarrow> None
           | Some (b, r4) \<Rightarrow>
               (let c = takeWhile is_digit r4
                in if c = [] then None else Some (a @ ''.'' @ b @ ''.'' @ c))))"

fun find_semver :: "string \<Rightarrow> string option" where
  \<comment> \<open>the leftmost match\<close>
  "find_semver [] = match_semver_at []"
| "find_semver (c # cs) =
     (case match_semver_at (c # cs) of Some m \<Rightarrow> Some m | None \<Rightarrow> find_semver cs)"

definition normalizeVersion :: "string \<Rightarrow> string" where
  "normalizeVersion v = (case find_semver v of Some m \<Rightarrow> m | None \<Rightarrow> v)"

definition normalizeModel :: "string \<Rightarrow> string" where
  \<comment> \<open>\<open>model.toLowerCase().replace(/[-_\s]/g, '')\<close>\<close>
  "normalizeModel m =
     filter (\<lambda>c. c \<noteq> CHR ''-'' \<and> c \<noteq> CHR ''_'' \<and> \<not> is_space c) (toLowerCase m)"

definition isHardwareModelCompatible :: "string \<Rightarrow> string \<Rightarrow> bool" where
  "isHardwareModelCompatible actual required =
     includes_str (normalizeModel actual) (normalizeModel required)"

definition hardware_matches :: "string list \<Rightarrow> string \<Rightarrow> bool" where
  \<comment> \<open>\<open>requiredHardware.some(model => hardwareModel.includes(model) ||
     this.isHardwareModelCompatible(hardwareModel, model))\<close>\<close>
  "hardware_matches required hw =
     list_ex (\<lambda>m. includes_str hw m \<or> isHardwareModelCompatible hw m) required"

definition checkZBFSupport_with :: "string \<Rightarrow> feature_config \<Rightarrow> string \<Rightarrow> string \<Rightarrow> bool" where
  \<comment> \<open>the body of \<open>checkZBFSupport\<close>, with the two constants it reads
     (\<open>VERSION_REQUIREMENTS.ZBF_MINIMUM\<close> and \<open>FEATURE_COMPATIBILITY.ZONE_BASED_FIREWALL\<close>)
     as parameters\<close>
  "checkZBFSupport_with zbfMinimum zbfCompatibility ver hw =
     (if \<not> isVersionAtLeast ver zbfMinimum then False
      else if List.member (requiredHardware zbfCompatibility) ''all'' then True
      else hardware_matches (requiredHardware zbfCompatibility) hw)"

definition checkZBFSupport :: "string \<Rightarrow> string \<Rightarrow> bool" where
  "checkZBFSupport ver hw = checkZBFSupport_with ZBF_MINIMUM ZONE_BASED_FIREWALL ver hw"

definition checkLegacyFirewallSupport :: "string \<Rightarrow> bool" where
  "checkLegacyFirewallSupport ver =
     (if truthy_str (deprecatedIn LEGACY_FIREWALL)
         \<and> isVersionAtLeast ver (str_or_empty (deprecatedIn LEGACY_FIREWALL))
      then True
      else isVersionAtLeast ver (minimumVersion LEGACY_FIREWALL))"

definition getEndpointAvailability :: "string \<Rightarrow> bool \<Rightarrow> string list \<times> string list" where
  \<comment> \<open>the pair (supported, deprecated)\<close>
  "getEndpointAvailability ver zbf =
     (let supported0 = [''/api/system'', ''/api/s/{site}/stat/device'', ''/api/s/{site}/stat/sta'',
                        ''/api/s/{site}/rest/networkconf'', ''/api/s/{site}/stat/sites'',
                        ''/api/s/{site}/stat/event''];
          supported1 = (if zbf
                        then supported0 @ [''/api/s/{site}/rest/firewallzone'',
                                           ''/api/s/{site}/rest/firewallzonepolicy'',
                                           ''/api/s/{site}/rest/simpleappblock'']
                        else supported0);
          legacyEndpoints = [''/api/s/{site}/rest/firewallrule'', ''/api/s/{site}/rest/firewallgroup''];
          legacy = checkLegacyFirewallSupport ver;
          moved = isVersionAtLeast ver LEGACY_FIREWALL_DEPRECATED;
          deprecated = (if legacy \<and> moved then legacyEndpoints else []);
          supported2 = (if legacy \<and> \<not> moved then supported1 @ legacyEndpoints else supported1);
          supported3 = (if isVersionAtLeast ver ADVANCED_STATS_MINIMUM
                        then supported2 @ [''/api/s/{site}/stat/device-stats'',
                                           ''/api/s/{site}/stat/user-stats'',
                                           ''/api/s/{site}/stat/health'']
                        else supported2)
      in (supported3, deprecated))"

definition isAdvancedGateway :: "string \<Rightarrow> bool" where
  "isAdvancedGateway m = list_ex (\<lambda>advModel. includes_str m advModel) [UCG_ULTRA, UCG_MAX]"

definition isProGateway :: "string \<Rightarrow> bool" where
  "isProGateway m = list_ex (\<lambda>proModel. includes_str m proModel) [UDM_PRO, USG_PRO_4]"

definition analyzeHardwareCapabilities :: "string \<Rightarrow> string \<Rightarrow> HardwareCapabilities" where
  "analyzeHardwareCapabilities hw ver =
     (let base0 = \<lparr>model = hw, supportsAdvancedFirewall = False, maxFirewallRules = 100, maxZones = 10\<rparr>;
          base1 = (if isAdvancedGateway hw
                   then base0\<lparr>supportsAdvancedFirewall := True, maxFirewallRules := 500, maxZones := 50\<rparr>
                   else if isProGateway hw
                   then base0\<lparr>supportsAdvancedFirewall := True, maxFirewallRules := 300, maxZones := 30\<rparr>
                   else base0)
      in if isVersionAtLeast ver ''9.0.0''
         then base1\<lparr>maxFirewallRules := maxFirewallRules base1 * 2\<rparr>
         else base1)"

definition analyzeCapabilities :: "SystemInfo \<Rightarrow> FeatureCapabilities" where
  "analyzeCapabilities systemInfo =
     (let ver = normalizeVersion (version systemInfo);
          hw = hardwareModel systemInfo;
          zbf = checkZBFSupport ver hw;
          legacy = checkLegacyFirewallSupport ver;
          endpoints = getEndpointAvailability ver zbf
      in \<lparr>cap_version = ver,
          supportsZBF = zbf,
          supportsLegacyFirewall = legacy,
          supportedEndpoints = fst endpoints,
          deprecatedEndpoints = snd endpoints,
          hardwareCapabilities = analyzeHardwareCapabilities hw ver\<rparr>)"

section \<open>The environment and the mutable state\<close>

text \<open>
  The outside world is an oracle: \<open>clock\<close> gives the successive readings of
  \<open>Date.now()\<close> and \<open>new Date()\<close> (milliseconds), \<open>systemInfoResults\<close> the outcome of
  the successive calls of \<open>client.getSystemInfo()\<close>, and \<open>clientConnected\<close> what
  \<open>unifiClient.isConnected()\<close> answers. The state counts the readings and the probes
  made so far and holds the fields of the detector and of the registry. Logging is left
  out, apart from the clock readings its arguments make.
\<close>

record env =
  clock :: "nat \<Rightarrow> int"
  systemInfoResults :: "nat \<Rightarrow> thrown + SystemInfo"
  clientConnected :: bool

datatype ToolCategory =
    CONNECTION | DEVICES | CLIENTS | FIREWALL_LEGACY | FIREWALL_ZBF
  | NETWORKS | GROUPS | MONITORING | AUTOMATION

record result_error =
  err_code :: ErrorCode
  err_message :: string
  err_details :: json

record result_metadata =
  executionTime :: int
  timestamp :: int
  md_version :: "string option"

record ToolResult =
  success :: bool
  data :: json
  error :: "result_error option"
  warnings :: "string list option"
  metadata :: "result_metadata option"

text \<open>
  A handler is an external collaborator: given the parameters it throws or returns a
  result. What it does to the connection or to the registry is not modelled.
\<close>

record MCPTool =
  name :: string
  description :: "string option"
  inputSchema :: json
  category :: ToolCategory
  requiresConnection :: bool
  requiresVersion :: "string option"
  handler :: "json \<Rightarrow> thrown + ToolResult"

record Tool =
  tool_name :: string
  tool_description :: "string option"
  tool_inputSchema :: json

record ToolRegistryEntry =
  tool :: MCPTool
  registered :: int
  enabled :: bool
  usageCount :: nat
  lastUsed :: "int option"
  averageExecutionTime :: rat
  errorCount :: nat
  dependencies :: "string list"

text \<open>
  A JavaScript \<open>Map\<close> keeps its keys in insertion order: an association list with
  distinct keys, where \<open>set\<close> replaces the value of a known key in place and appends a
  new key.
\<close>

fun Map_set :: "('k \<times> 'v) list \<Rightarrow> 'k \<Rightarrow> 'v \<Rightarrow> ('k \<times> 'v) list" where
  "Map_set [] k v = [(k, v)]"
| "Map_set ((k', v') # kvs) k v =
     (if k' = k then (k, v) # kvs else (k', v') # Map_set kvs k v)"

definition Map_get :: "('k \<times> 'v) list \<Rightarrow> 'k \<Rightarrow> 'v option" where
  "Map_get kvs k = map_of kvs k"

definition Map_delete :: "('k \<times> 'v) list \<Rightarrow> 'k \<Rightarrow> ('k \<times> 'v) list" where
  "Map_delete kvs k = filter (\<lambda>kv. fst kv \<noteq> k) kvs"

record state =
  ticks :: nat
  probes :: nat
  cachedCapabilities :: "FeatureCapabilities option"
  cacheTimestamp :: "int option"
  tools :: "(string \<times> ToolRegistryEntry) list"
  categories :: "(ToolCategory \<times> string list) list"
  dependencies_of :: "(string \<times> string list) list"

definition now :: "env \<Rightarrow> state \<Rightarrow> int \<times> state" where
  \<comment> \<open>one reading of the clock\<close>
  "now e s = (clock e (ticks s), s\<lparr>ticks := ticks s + 1\<rparr>)"

definition getSystemInfo :: "env \<Rightarrow> state \<Rightarrow> (thrown + SystemInfo) \<times> state" where
  \<comment> \<open>one call of \<open>client.getSystemInfo()\<close>: the probe\<close>
  "getSystemInfo e s = (systemInfoResults e (probes s), s\<lparr>probes := probes s + 1\<rparr>)"

section \<open>VersionDetector: the cache\<close>

definition cacheValidityMinutes :: int where "cacheValidityMinutes = 60"

definition isCacheValid :: "env \<Rightarrow> state \<Rightarrow> bool \<times> state" where
  "isCacheValid e s =
     (if cachedCapabilities s = None \<or> cacheTimestamp s = None then (False, s)
      else let (t, s1) = now e s;
               cacheAge = t - (case cacheTimestamp s of Some ts \<Rightarrow> ts | None \<Rightarrow> 0);
               maxAge = cacheValidityMinutes * 60 * 1000
           in (cacheAge < maxAge, s1))"

definition detection_failed :: "thrown \<Rightarrow> thrown" where
  "detection_failed err =
     McpError (new_UniFiMCPError ''Unable to detect UniFi capabilities'' CAPABILITY_DETECTION_FAILED
       (Some 500) (JObj [(''originalError'', JStr (error_message err))]))"

definition detectCapabilities :: "env \<Rightarrow> state \<Rightarrow> (thrown + FeatureCapabilities) \<times> state" where
  "detectCapabilities e s =
     (let (valid, s1) = isCacheValid e s
      in case (valid, cachedCapabilities s1) of
           (True, Some caps) \<Rightarrow> (Inr caps, s1)
         | _ \<Rightarrow>
           (let (r, s2) = getSystemInfo e s1
            in case r of
                 Inl err \<Rightarrow> (Inl (detection_failed err), s2)
               | Inr systemInfo \<Rightarrow>
                   (let capabilities = analyzeCapabilities systemInfo;
                        (t, s3) = now e s2
                    in (Inr capabilities,
                        s3\<lparr>cachedCapabilities := Some capabilities, cacheTimestamp := Some t\<rparr>))))"

definition clearCache :: "state \<Rightarrow> state" where
  "clearCache s = s\<lparr>cachedCapabilities := None, cacheTimestamp := None\<rparr>"

definition forceDetection :: "env \<Rightarrow> state \<Rightarrow> (thrown + FeatureCapabilities) \<times> state" where
  "forceDetection e s = detectCapabilities e (clearCache s)"

definition validateFeature :: "env \<Rightarrow> string \<Rightarrow> state \<Rightarrow> (thrown + unit) \<times> state" where
  "validateFeature e feature s =
     (case detectCapabilities e s of
        (Inl err, s1) \<Rightarrow> (Inl err, s1)
      | (Inr capabilities, s1) \<Rightarrow>
          (if feature = ''zbf'' then
             (if \<not> supportsZBF capabilities
              then Inl (McpError (FeatureNotSupportedError ''Zone-Based Firewall''
                         (Some ZBF_MINIMUM) (Some (cap_version capabilities))))
              else Inr ())
           else if feature = ''legacy-firewall'' then
             (if \<not> supportsLegacyFirewall capabilities
              then Inl (McpError (FeatureNotSupportedError ''Legacy Firewall''
                         (Some (minimumVersion LEGACY_FIREWALL)) (Some (cap_version capabilities))))
              else Inr ())
           else if feature = ''advanced-stats'' then
             (if \<not> isVersionAtLeast (cap_version capabilities) ADVANCED_STATS_MINIMUM
              then Inl (McpError (FeatureNotSupportedError ''Advanced Statistics''
                         (Some ADVANCED_STATS_MINIMUM) (Some (cap_version capabilities))))
              else Inr ())
           else Inl (McpError (new_UniFiMCPError (''Unknown feature: '' @ feature) UNKNOWN_FEATURE
                       (Some 400) JUndefined)),
           s1))"


section \<open>VersionDetector.getToolAvailability\<close>

definition tool_available :: Availability where
  "tool_available = \<lparr>available = True, reason = None, alternativeTool = None, av_minimumVersion = None\<rparr>"

definition markToolsUnavailable ::
  "string list \<Rightarrow> string \<Rightarrow> string option \<Rightarrow> string option \<Rightarrow> (string \<times> Availability) list" where
  "markToolsUnavailable names why alt minv =
     map (\<lambda>t. (t, \<lparr>available = False, reason = Some why,
                    alternativeTool = (if truthy_str alt then alt else None),
                    av_minimumVersion = (if truthy_str minv then minv else None)\<rparr>)) names"

definition legacyFirewallTools :: "string list" where
  "legacyFirewallTools = [''unifi_get_firewall_rules'', ''unifi_create_firewall_rule'',
     ''unifi_update_firewall_rule'', ''unifi_delete_firewall_rule'']"

definition zbfTools :: "string list" where
  "zbfTools = [''unifi_get_zones'', ''unifi_create_zone'', ''unifi_update_zone'',
     ''unifi_delete_zone'', ''unifi_get_zone_policies'', ''unifi_create_zone_policy'',
     ''unifi_update_zone_policy'', ''unifi_delete_zone_policy'', ''unifi_get_zone_matrix'',
     ''unifi_block_app_in_zone'']"

definition monitoringTools :: "string list" where
  "monitoringTools = [''unifi_get_site_stats'', ''unifi_get_bandwidth_usage'',
     ''unifi_get_events'', ''unifi_get_alerts'']"

definition availability_of :: "FeatureCapabilities \<Rightarrow> (string \<times> Availability) list" where
  \<comment> \<open>the object built by \<open>getToolAvailability\<close>, in the order of its assignments; no key
     is assigned twice\<close>
  "availability_of capabilities =
     map (\<lambda>t. (t, tool_available))
       [''unifi_connect'', ''unifi_test_connection'', ''unifi_get_system_info'', ''unifi_disconnect'',
        ''unifi_get_devices'', ''unifi_get_device_details'', ''unifi_restart_device'',
        ''unifi_get_clients'', ''unifi_get_client_details'', ''unifi_block_client'',
        ''unifi_unblock_client'']
     @ (if supportsLegacyFirewall capabilities
        then map (\<lambda>t. (t, tool_available\<lparr>reason :=
                    (if length (deprecatedEndpoints capabilities) > 0
                     then Some ''Available but deprecated. Consider using Zone-Based Firewall tools.''
                     else None)\<rparr>)) legacyFirewallTools
        else markToolsUnavailable legacyFirewallTools ''Legacy firewall not supported in this version''
               (Some ''Use Zone-Based Firewall tools instead'') None)
     @ (if supportsZBF capabilities
        then map (\<lambda>t. (t, tool_available)) zbfTools
        else markToolsUnavailable zbfTools ''Zone-Based Firewall not supported''
               (Some ''Requires UniFi Network 9.0+ and compatible hardware'') None)
     @ map (\<lambda>t. (t, tool_available))
         [''unifi_get_networks'', ''unifi_create_network'', ''unifi_update_network'',
          ''unifi_delete_network'']
     @ (if isVersionAtLeast (cap_version capabilities) ADVANCED_STATS_MINIMUM
        then map (\<lambda>t. (t, tool_available)) monitoringTools
        else markToolsUnavailable monitoringTools ''Advanced monitoring not supported''
               None (Some ADVANCED_STATS_MINIMUM))"

definition getToolAvailability ::
  "env \<Rightarrow> state \<Rightarrow> (thrown + (string \<times> Availability) list) \<times> state" where
  "getToolAvailability e s =
     (case detectCapabilities e s of
        (Inl err, s1) \<Rightarrow> (Inl err, s1)
      | (Inr capabilities, s1) \<Rightarrow> (Inr (availability_of capabilities), s1))"

section \<open>ToolRegistry (server/toolRegistry.ts)\<close>

definition all_categories :: "ToolCategory list" where
  \<comment> \<open>\<open>Object.values(ToolCategory)\<close>\<close>
  "all_categories = [CONNECTION, DEVICES, CLIENTS, FIREWALL_LEGACY, FIREWALL_ZBF,
                     NETWORKS, GROUPS, MONITORING, AUTOMATION]"

definition initial_state :: state where
  \<comment> \<open>a detector with an empty cache and a registry as its constructor leaves it\<close>
  "initial_state =
     \<lparr>ticks = 0, probes = 0, cachedCapabilities = None, cacheTimestamp = None,
      tools = [], categories = map (\<lambda>c. (c, [])) all_categories, dependencies_of = []\<rparr>"

definition extractDependencies :: "MCPTool \<Rightarrow> string list" where
  "extractDependencies t =
     (if requiresConnection t then [''unifi_connect''] else [])
     @ (if truthy_str (requiresVersion t) then [''version_check''] else [])
     @ (case category t of
          FIREWALL_ZBF \<Rightarrow> [''zbf_support'']
        | FIREWALL_LEGACY \<Rightarrow> [''legacy_firewall_support'']
        | _ \<Rightarrow> [])"

definition addToCategory :: "ToolCategory \<Rightarrow> string \<Rightarrow> state \<Rightarrow> state" where
  "addToCategory c toolName s =
     (let names = (case Map_get (categories s) c of Some ns \<Rightarrow> ns | None \<Rightarrow> [])
      in if \<not> List.member names toolName
         then s\<lparr>categories := Map_set (categories s) c (names @ [toolName])\<rparr>
         else s)"

definition removeFromCategory :: "ToolCategory \<Rightarrow> string \<Rightarrow> state \<Rightarrow> state" where
  "removeFromCategory c toolName s =
     (let names = (case Map_get (categories s) c of Some ns \<Rightarrow> ns | None \<Rightarrow> [])
      in if List.member names toolName
         then s\<lparr>categories := Map_set (categories s) c (remove1 toolName names)\<rparr>
         else s)"

definition register :: "env \<Rightarrow> MCPTool \<Rightarrow> state \<Rightarrow> state" where
  "register e t s =
     (let (d, s1) = now e s;
          entry = \<lparr>tool = t, registered = d, enabled = True, usageCount = 0, lastUsed = None,
                   averageExecutionTime = 0, errorCount = 0,
                   dependencies = extractDependencies t\<rparr>;
          s2 = s1\<lparr>tools := Map_set (tools s1) (name t) entry\<rparr>;
          s3 = addToCategory (category t) (name t) s2
      in s3\<lparr>dependencies_of := Map_set (dependencies_of s3) (name t) (dependencies entry)\<rparr>)"

definition unregister :: "string \<Rightarrow> state \<Rightarrow> bool \<times> state" where
  "unregister toolName s =
     (case Map_get (tools s) toolName of
        None \<Rightarrow> (False, s)
      | Some entry \<Rightarrow>
          (let s1 = removeFromCategory (category (tool entry)) toolName s;
               s2 = s1\<lparr>dependencies_of := Map_delete (dependencies_of s1) toolName\<rparr>
           in (True, s2\<lparr>tools := Map_delete (tools s2) toolName\<rparr>)))"

definition setToolEnabled :: "string \<Rightarrow> bool \<Rightarrow> state \<Rightarrow> bool \<times> state" where
  "setToolEnabled toolName b s =
     (case Map_get (tools s) toolName of
        None \<Rightarrow> (False, s)
      | Some entry \<Rightarrow> (True, s\<lparr>tools := Map_set (tools s) toolName (entry\<lparr>enabled := b\<rparr>)\<rparr>))"

definition getAllTools :: "state \<Rightarrow> MCPTool list" where
  "getAllTools s = map tool (filter enabled (map snd (tools s)))"

definition getAllToolsForDocumentation :: "state \<Rightarrow> MCPTool list" where
  "getAllToolsForDocumentation s = map tool (map snd (tools s))"

definition is_available :: "(string \<times> Availability) list \<Rightarrow> string \<Rightarrow> bool" where
  \<comment> \<open>\<open>toolAvailability[toolName]?.available\<close>, as a condition\<close>
  "is_available av toolName = (case map_of av toolName of Some a \<Rightarrow> available a | None \<Rightarrow> False)"

definition getAvailableTools :: "env \<Rightarrow> state \<Rightarrow> MCPTool list \<times> state" where
  "getAvailableTools e s =
     (case getToolAvailability e s of
        (Inl err, s1) \<Rightarrow> (getAllTools s1, s1)
      | (Inr toolAvailability, s1) \<Rightarrow>
          (map (\<lambda>kv. tool (snd kv))
             (filter (\<lambda>kv. enabled (snd kv) \<and> is_available toolAvailability (fst kv)) (tools s1)),
           s1))"

definition to_Tool :: "MCPTool \<Rightarrow> Tool" where
  "to_Tool t = \<lparr>tool_name = name t, tool_description = description t, tool_inputSchema = inputSchema t\<rparr>"

definition getToolsForMCP :: "env \<Rightarrow> state \<Rightarrow> Tool list \<times> state" where
  "getToolsForMCP e s =
     (if \<not> clientConnected e then (map to_Tool (getAllToolsForDocumentation s), s)
      else let (toolsToReturn, s1) = getAvailableTools e s in (map to_Tool toolsToReturn, s1))"

definition getCategoryFeature :: "ToolCategory \<Rightarrow> string" where
  "getCategoryFeature c =
     (case c of
        FIREWALL_ZBF \<Rightarrow> ''zbf''
      | FIREWALL_LEGACY \<Rightarrow> ''legacy-firewall''
      | MONITORING \<Rightarrow> ''monitoring''
      | AUTOMATION \<Rightarrow> ''automation''
      | _ \<Rightarrow> ''basic'')"

fun validateDependencies_loop :: "env \<Rightarrow> string list \<Rightarrow> state \<Rightarrow> (thrown + unit) \<times> state" where
  "validateDependencies_loop e [] s = (Inr (), s)"
| "validateDependencies_loop e (dependency # rest) s =
     (let (r, s1) =
            (if dependency = ''unifi_connect'' then
               (if \<not> clientConnected e
                then Inl (McpError (new_UniFiMCPError ''UniFi connection required''
                            CONNECTION_REQUIRED None JUndefined))
                else Inr (), s)
             else if dependency = ''zbf_support'' then validateFeature e ''zbf'' s
             else if dependency = ''legacy_firewall_support'' then validateFeature e ''legacy-firewall'' s
             else (Inr (), s))
      in case r of
           Inl err \<Rightarrow> (Inl err, s1)
         | Inr u \<Rightarrow> validateDependencies_loop e rest s1)"

definition validateDependencies :: "env \<Rightarrow> string \<Rightarrow> state \<Rightarrow> (thrown + unit) \<times> state" where
  "validateDependencies e toolName s =
     validateDependencies_loop e
       (case Map_get (dependencies_of s) toolName of Some ds \<Rightarrow> ds | None \<Rightarrow> []) s"

definition updateUsageStats :: "env \<Rightarrow> string \<Rightarrow> int \<Rightarrow> bool \<Rightarrow> state \<Rightarrow> state" where
  "updateUsageStats e toolName execTime ok s =
     (case Map_get (tools s) toolName of
        None \<Rightarrow> s
      | Some entry \<Rightarrow>
          (let (d, s1) = now e s;
               n = usageCount entry + 1;
               totalTime = averageExecutionTime entry * of_nat (n - 1) + of_int execTime;
               entry' = entry\<lparr>usageCount := n, lastUsed := Some d,
                               averageExecutionTime := totalTime / of_nat n,
                               errorCount := (if \<not> ok then errorCount entry + 1 else errorCount entry)\<rparr>
           in s1\<lparr>tools := Map_set (tools s1) toolName entry'\<rparr>))"

definition increment_errorCount :: "string \<Rightarrow> state \<Rightarrow> state" where
  \<comment> \<open>\<open>entry.errorCount++\<close> on the entry object held by the map\<close>
  "increment_errorCount toolName s =
     (case Map_get (tools s) toolName of
        None \<Rightarrow> s
      | Some entry \<Rightarrow>
          s\<lparr>tools := Map_set (tools s) toolName (entry\<lparr>errorCount := errorCount entry + 1\<rparr>)\<rparr>)"

definition error_result :: "thrown \<Rightarrow> int \<Rightarrow> int \<Rightarrow> ToolResult" where
  \<comment> \<open>the structured error result built in the \<open>catch\<close> block\<close>
  "error_result err execTime stamp =
     \<lparr>success = False, data = JUndefined,
      error = Some \<lparr>err_code = (case err of McpError m \<Rightarrow> code m | OtherError x \<Rightarrow> EXECUTION_ERROR),
                    err_message = error_message err,
                    err_details = (case err of McpError m \<Rightarrow> details m | OtherError x \<Rightarrow> JUndefined)\<rparr>,
      warnings = None,
      metadata = Some \<lparr>executionTime = execTime, timestamp = stamp, md_version = None\<rparr>\<rparr>"

definition run_handler :: "env \<Rightarrow> ToolRegistryEntry \<Rightarrow> string \<Rightarrow> json \<Rightarrow> state \<Rightarrow> (thrown + ToolResult) \<times> state" where
  \<comment> \<open>the first two statements of the \<open>try\<close> block: the dependencies, then the handler\<close>
  "run_handler e entry toolName params s =
     (case validateDependencies e toolName s of
        (Inl err, s1) \<Rightarrow> (Inl err, s1)
      | (Inr u, s1) \<Rightarrow> (handler (tool entry) params, s1))"

definition execute_phase :: "env \<Rightarrow> ToolRegistryEntry \<Rightarrow> string \<Rightarrow> json \<Rightarrow> state \<Rightarrow> ToolResult \<times> state" where
  \<comment> \<open>from \<open>const startTime = Date.now()\<close> to the end of \<open>executeTool\<close>\<close>
  "execute_phase e entry toolName params s =
     (let (startTime, s1) = now e s
      in case run_handler e entry toolName params s1 of
           (Inr result, s2) \<Rightarrow>
             (let (t1, s3) = now e s2;
                  s4 = updateUsageStats e toolName (t1 - startTime) (success result) s3;
                  (t2, s5) = now e s4
              in (result, s5))
         | (Inl err, s2) \<Rightarrow>
             (let s3 = increment_errorCount toolName s2;
                  (t1, s4) = now e s3;
                  s5 = updateUsageStats e toolName (t1 - startTime) False s4;
                  (t2, s6) = now e s5;
                  (t3, s7) = now e s6;
                  (stamp, s8) = now e s7
              in (error_result err (t3 - startTime) stamp, s8)))"

definition executeTool :: "env \<Rightarrow> string \<Rightarrow> json \<Rightarrow> state \<Rightarrow> (thrown + ToolResult) \<times> state" where
  \<comment> \<open>\<open>Inl\<close>: the exception that reaches the caller; \<open>Inr\<close>: the result returned\<close>
  "executeTool e toolName params s =
     (case Map_get (tools s) toolName of
        None \<Rightarrow>
          (Inl (McpError (new_UniFiMCPError (''Tool '' @ quoted toolName @ '' not found'')
                  TOOL_NOT_FOUND (Some 404) JUndefined)), s)
      | Some entry \<Rightarrow>
          if \<not> enabled entry then
            (Inl (McpError (new_UniFiMCPError (''Tool '' @ quoted toolName @ '' is disabled'')
                    TOOL_DISABLED (Some 403) JUndefined)), s)
          else if requiresConnection (tool entry) \<and> \<not> clientConnected e then
            (Inl (McpError (new_UniFiMCPError
                    (''Tool '' @ quoted toolName @ '' requires an active UniFi connection'')
                    CONNECTION_REQUIRED (Some 412) JUndefined)), s)
          else
            (case (if truthy_str (requiresVersion (tool entry))
                   then validateFeature e (getCategoryFeature (category (tool entry))) s
                   else (Inr (), s)) of
               (Inl err, s1) \<Rightarrow>
                 (Inl (McpError (new_UniFiMCPError
                         (''Tool '' @ quoted toolName
                            @ '' requires features not available in current UniFi version'')
                         FEATURE_NOT_AVAILABLE (Some 501)
                         (JObj [(''originalError'', JStr (error_message err))]))), s1)
             | (Inr u, s1) \<Rightarrow>
                 (let (result, s2) = execute_phase e entry toolName params s1
                  in (Inr result, s2))))"

section \<open>ErrorRecovery.withRetry (utils/errors.ts)\<close>

text \<open>
  Delays are rational numbers of milliseconds. The operation is effectful: its outcome
  depends on how many times it has been called, and \<open>operation i\<close> is the outcome of call
  number \<open>i\<close> (from 0). \<open>random i\<close> is the value of the \<open>i\<close>-th \<open>Math.random()\<close>, which
  lies in \<open>[0, 1)\<close>. The result records the outcome, the number of calls of the operation
  and the delays slept, in order.
\<close>

record RetryConfig =
  maxAttempts :: int
  baseDelay :: rat
  maxDelay :: rat
  exponentialBackoff :: bool
  retryCondition :: "(thrown \<Rightarrow> bool) option"

record PartialRetryConfig =
  p_maxAttempts :: "int option"
  p_baseDelay :: "rat option"
  p_maxDelay :: "rat option"
  p_exponentialBackoff :: "bool option"
  p_retryCondition :: "(thrown \<Rightarrow> bool) option"

definition default_retryCondition :: "thrown \<Rightarrow> bool" where
  "default_retryCondition err = (case err of McpError m \<Rightarrow> retryable m | OtherError x \<Rightarrow> False)"

definition defaultRetryConfig :: RetryConfig where
  "defaultRetryConfig =
     \<lparr>maxAttempts = 3, baseDelay = 1000, maxDelay = 10000, exponentialBackoff = True,
      retryCondition = Some default_retryCondition\<rparr>"

definition empty_config :: PartialRetryConfig where
  \<comment> \<open>the default argument \<open>{}\<close>\<close>
  "empty_config = \<lparr>p_maxAttempts = None, p_baseDelay = None, p_maxDelay = None,
                   p_exponentialBackoff = None, p_retryCondition = None\<rparr>"

definition merge_config :: "RetryConfig \<Rightarrow> PartialRetryConfig \<Rightarrow> RetryConfig" where
  \<comment> \<open>\<open>{ ...defaults, ...config }\<close>: a property the partial configuration has wins\<close>
  "merge_config d c =
     \<lparr>maxAttempts = (case p_maxAttempts c of Some v \<Rightarrow> v | None \<Rightarrow> maxAttempts d),
      baseDelay = (case p_baseDelay c of Some v \<Rightarrow> v | None \<Rightarrow> baseDelay d),
      maxDelay = (case p_maxDelay c of Some v \<Rightarrow> v | None \<Rightarrow> maxDelay d),
      exponentialBackoff = (case p_exponentialBackoff c of Some v \<Rightarrow> v | None \<Rightarrow> exponentialBackoff d),
      retryCondition = (case p_retryCondition c of Some v \<Rightarrow> Some v | None \<Rightarrow> retryCondition d)\<rparr>"

record 'a retry_result =
  outcome :: "thrown option + 'a"
  attempts :: nat
  delays :: "rat list"

definition should_retry :: "RetryConfig \<Rightarrow> thrown \<Rightarrow> bool" where
  \<comment> \<open>\<open>finalConfig.retryCondition?.(lastError)\<close>, as a condition\<close>
  "should_retry c err = (case retryCondition c of Some f \<Rightarrow> f err | None \<Rightarrow> False)"

definition backoff_delay :: "RetryConfig \<Rightarrow> nat \<Rightarrow> rat" where
  \<comment> \<open>the delay before the jitter is added, after \<open>attempt\<close> failed attempts\<close>
  "backoff_delay c attempt =
     (if exponentialBackoff c then min (baseDelay c * 2 ^ (attempt - 1)) (maxDelay c)
      else baseDelay c)"

function withRetry_loop ::
  "RetryConfig \<Rightarrow> (nat \<Rightarrow> thrown + 'a) \<Rightarrow> (nat \<Rightarrow> rat) \<Rightarrow> nat \<Rightarrow> thrown option \<Rightarrow> rat list
   \<Rightarrow> 'a retry_result" where
  "withRetry_loop c operation random attempt lastError slept =
     (if int attempt < maxAttempts c then
        (case operation attempt of
           Inr v \<Rightarrow> \<lparr>outcome = Inr v, attempts = attempt + 1, delays = slept\<rparr>
         | Inl err \<Rightarrow>
             if int (attempt + 1) \<ge> maxAttempts c \<or> \<not> should_retry c err
             then \<lparr>outcome = Inl (Some err), attempts = attempt + 1, delays = slept\<rparr>
             else withRetry_loop c operation random (attempt + 1) (Some err)
                    (slept @ [backoff_delay c (attempt + 1) + random (length slept) * 1000]))
      else \<lparr>outcome = Inl lastError, attempts = attempt, delays = slept\<rparr>)"
  by pat_completeness auto
termination
  by (relation "measure (\<lambda>(c, operation, random, attempt, lastError, slept).
                  nat (maxAttempts c - int attempt))") auto

declare withRetry_loop.simps [simp del]

definition withRetry ::
  "(nat \<Rightarrow> thrown + 'a) \<Rightarrow> PartialRetryConfig \<Rightarrow> (nat \<Rightarrow> rat) \<Rightarrow> 'a retry_result" where
  "withRetry operation config random =
     withRetry_loop (merge_config defaultRetryConfig config) operation random 0 None []"

section \<open>UniFiClient: response normalisation and getConfig\<close>

fun truthy :: "json \<Rightarrow> bool" where
  "truthy JUndefined = False"
| "truthy JNull = False"
| "truthy (JBool b) = b"
| "truthy (JNum n) = (n \<noteq> 0)"
| "truthy (JStr s) = (s \<noteq> [])"
| "truthy (JArr xs) = True"
| "truthy (JObj kvs) = True"

fun get_prop :: "json \<Rightarrow> string \<Rightarrow> json" where
  \<comment> \<open>\<open>v.key\<close> for the keys \<open>meta\<close> and \<open>data\<close>, which only a plain object can have\<close>
  "get_prop (JObj kvs) k = (case map_of kvs k of Some v \<Rightarrow> v | None \<Rightarrow> JUndefined)"
| "get_prop _ k = JUndefined"

fun isArray :: "json \<Rightarrow> bool" where
  "isArray (JArr xs) = True"
| "isArray _ = False"

definition success_meta :: json where
  "success_meta = JObj [(''msg'', JStr ''success''), (''rc'', JStr ''ok'')]"

definition normalizeBody :: "json \<Rightarrow> json" where
  \<comment> \<open>the statement \<open>if (response.data && response.data.meta && response.data.data) ...\<close>
     that ends \<open>get\<close>, \<open>post\<close>, \<open>put\<close> and \<open>delete\<close>\<close>
  "normalizeBody body =
     (if truthy body \<and> truthy (get_prop body ''meta'') \<and> truthy (get_prop body ''data'')
      then body
      else JObj [(''meta'', success_meta),
                 (''data'', if isArray body then body else JArr [body])])"

text \<open>
  The four request methods differ in what they send; \<open>response\<close> is the outcome of
  \<open>ensureAuthenticated\<close> followed by \<open>makeRequest\<close>, an exception or the response body.
\<close>

definition client_get :: "thrown + json \<Rightarrow> thrown + json" where
  "client_get response = (case response of Inl err \<Rightarrow> Inl err | Inr body \<Rightarrow> Inr (normalizeBody body))"

definition client_post :: "thrown + json \<Rightarrow> thrown + json" where
  "client_post response = (case response of Inl err \<Rightarrow> Inl err | Inr body \<Rightarrow> Inr (normalizeBody body))"

definition client_put :: "thrown + json \<Rightarrow> thrown + json" where
  "client_put response = (case response of Inl err \<Rightarrow> Inl err | Inr body \<Rightarrow> Inr (normalizeBody body))"

definition client_delete :: "thrown + json \<Rightarrow> thrown + json" where
  "client_delete response = (case response of Inl err \<Rightarrow> Inl err | Inr body \<Rightarrow> Inr (normalizeBody body))"

text \<open>
  The client's configuration is an object: its own properties in order, with distinct
  keys. \<open>const { apiKey, ...config } = this.config\<close> copies every property but \<open>apiKey\<close>.
\<close>

definition getConfig :: "(string \<times> json) list \<Rightarrow> (string \<times> json) list" where
  "getConfig config = filter (\<lambda>kv. fst kv \<noteq> ''apiKey'') config"

section \<open>Definitions used in the statements and proofs\<close>

fun geq_list :: "nat list \<Rightarrow> nat list \<Rightarrow> bool" where
  \<comment> \<open>the comparison of two lists of equal length, component by component\<close>
  "geq_list (x # xs) (y # ys) = (if x > y then True else if x < y then False else geq_list xs ys)"
| "geq_list _ _ = True"


fun is_object :: "json \<Rightarrow> bool" where
  "is_object (JObj kvs) = True"
| "is_object _ = False"

definition canonical_envelope :: "json \<Rightarrow> bool" where
  \<comment> \<open>the shape \<open>{meta: {...}, data: [...]}\<close>\<close>
  "canonical_envelope body =
     (is_object body \<and> is_object (get_prop body ''meta'') \<and> isArray (get_prop body ''data''))"

definition has_envelope_fields :: "json \<Rightarrow> bool" where
  \<comment> \<open>the test the code makes: a truthy \<open>meta\<close> and a truthy \<open>data\<close> property\<close>
  "has_envelope_fields body = (truthy (get_prop body ''meta'') \<and> truthy (get_prop body ''data''))"

definition wrapped :: "json \<Rightarrow> json" where
  \<comment> \<open>the envelope with the synthetic success marker around a data list\<close>
  "wrapped d = JObj [(''meta'', success_meta), (''data'', d)]"

definition request_methods :: "((thrown + json) \<Rightarrow> thrown + json) list" where
  "request_methods = [client_get, client_post, client_put, client_delete]"

definition cache_fresh :: "env \<Rightarrow> state \<Rightarrow> bool" where
  \<comment> \<open>the next reading of the clock is less than 60 minutes after the cache timestamp\<close>
  "cache_fresh e s =
     (case cacheTimestamp s of
        None \<Rightarrow> False
      | Some ts \<Rightarrow> clock e (ticks s) - ts < 60 * 60 * 1000)"

definition delay_ok :: "RetryConfig \<Rightarrow> nat \<Rightarrow> rat \<Rightarrow> bool" where
  \<comment> \<open>\<open>d\<close> is the backoff delay after \<open>j + 1\<close> failed attempts plus a jitter in \<open>[0, 1000)\<close>\<close>
  "delay_ok c j d = (\<exists>jitter. 0 \<le> jitter \<and> jitter < 1000 \<and> d = backoff_delay c (j + 1) + jitter)"

definition reaches_execution :: "env \<Rightarrow> string \<Rightarrow> state \<Rightarrow> ToolRegistryEntry \<Rightarrow> state \<Rightarrow> bool" where
  \<comment> \<open>the invocation of \<open>toolName\<close> in state \<open>s\<close> passes every precondition check of
     \<open>executeTool\<close>: \<open>entry\<close> is the registered entry and \<open>s1\<close> the state in which the
     execution phase starts\<close>
  "reaches_execution e toolName s entry s1 =
     (Map_get (tools s) toolName = Some entry \<and> enabled entry
      \<and> (clientConnected e \<or> \<not> requiresConnection (tool entry))
      \<and> (if truthy_str (requiresVersion (tool entry))
         then validateFeature e (getCategoryFeature (category (tool entry))) s = (Inr (), s1)
         else s1 = s))"

text \<open>Concrete inputs for the witnesses and counterexamples.\<close>

definition sample_info :: SystemInfo where
  "sample_info =
     \<lparr>version = ''9.0.108'', buildNumber = ''1'', buildTimestamp = 0, hostname = ''gateway'',
      timezone = ''UTC'', uptime = 0, firewallMode = Zbf, zbfSupported = True,
      hardwareModel = ''UDM-Pro'', hardwareRevision = ''1.0'',
      ubntNetworkApplicationVersion = ''9.0.108''\<rparr>"

definition env_offline :: env where
  \<comment> \<open>no connection; the clock advances by one millisecond per reading; every probe succeeds\<close>
  "env_offline =
     \<lparr>clock = (\<lambda>i. int i), systemInfoResults = (\<lambda>i. Inr sample_info), clientConnected = False\<rparr>"

definition env_online :: env where
  "env_online = env_offline\<lparr>clientConnected := True\<rparr>"

definition test_result :: ToolResult where
  "test_result =
     \<lparr>success = True, data = JObj [(''message'', JStr ''Test successful'')], error = None,
      warnings = None,
      metadata = Some \<lparr>executionTime = 0, timestamp = 0, md_version = None\<rparr>\<rparr>"

definition test_tool :: MCPTool where
  \<comment> \<open>the tool of the repository's registry tests\<close>
  "test_tool =
     \<lparr>name = ''test_tool'', description = Some ''Test tool for unit testing'',
      inputSchema = JObj [(''type'', JStr ''object''), (''properties'', JObj []),
                          (''additionalProperties'', JBool False)],
      category = CONNECTION, requiresConnection = False, requiresVersion = None,
      handler = (\<lambda>params. Inr test_result)\<rparr>"

definition failing_tool :: MCPTool where
  \<comment> \<open>the same tool with a handler that throws\<close>
  "failing_tool = test_tool\<lparr>name := ''failing_tool'', handler := (\<lambda>params. Inl (OtherError ''boom''))\<rparr>"

definition connected_tool :: MCPTool where
  \<comment> \<open>a tool that requires a connection\<close>
  "connected_tool = test_tool\<lparr>name := ''connected_tool'', requiresConnection := True\<rparr>"

definition unreachable :: thrown where
  \<comment> \<open>a \<open>ConnectionError\<close>: retryable\<close>
  "unreachable = McpError \<lparr>message = ''unreachable'', code = CONNECTION_FAILED,
                            statusCode = Some 503, details = JUndefined, retryable = True\<rparr>"

definition key_error :: thrown where
  \<comment> \<open>an \<open>APIKeyError\<close>: not retryable\<close>
  "key_error = McpError \<lparr>message = ''Invalid API key'', code = API_KEY_INVALID,
                          statusCode = Some 401, details = JUndefined, retryable = False\<rparr>"

definition flaky :: "nat \<Rightarrow> thrown + nat" where
  \<comment> \<open>an operation that fails twice with a retryable error, then succeeds\<close>
  "flaky i = (if i < 2 then Inl unreachable else Inr 42)"

definition invalid_key :: "nat \<Rightarrow> thrown + nat" where
  \<comment> \<open>an operation that always fails with an error that is not retryable\<close>
  "invalid_key i = Inl key_error"

definition half :: "nat \<Rightarrow> rat" where
  \<comment> \<open>a random source that always answers 0.5\<close>
  "half i = 1 / 2"

definition env_failing :: env where
  \<comment> \<open>connected, but every probe fails\<close>
  "env_failing = env_online\<lparr>systemInfoResults := (\<lambda>i. Inl (OtherError ''timeout''))\<rparr>"

definition registry_with :: "MCPTool \<Rightarrow> state" where
  \<comment> \<open>a fresh registry in which one tool has been registered\<close>
  "registry_with t = register env_offline t initial_state"

definition registry_disabled :: "MCPTool \<Rightarrow> state" where
  \<comment> \<open>the same registry after \<open>setToolEnabled(name, false)\<close>\<close>
  "registry_disabled t = snd (setToolEnabled (name t) False (registry_with t))"

definition connect_tool :: MCPTool where
  \<comment> \<open>a tool that the availability table knows by name\<close>
  "connect_tool = test_tool\<lparr>name := ''unifi_connect''\<rparr>"

definition refusing_tool :: MCPTool where
  \<comment> \<open>a tool whose handler returns a failure result instead of throwing\<close>
  "refusing_tool =
     test_tool\<lparr>name := ''refusing_tool'',
                handler := (\<lambda>params. Inr (test_result\<lparr>success := False\<rparr>))\<rparr>"

section \<open>Version comparison: proofs\<close>

lemma geq_list_lexord:
  "length xs = length ys \<Longrightarrow>
     geq_list xs ys = (xs = ys \<or> (ys, xs) \<in> lexord {(x, y). x < (y::nat)})"
  by (induction xs ys rule: list_induct2) auto

lemma or_zero_pad:
  "i < n \<Longrightarrow> or_zero (at_index (map Num xs) i) = Num (pad_zeros n xs ! i)"
  by (auto simp: at_index_def pad_zeros_def nth_append)

lemma loop_geq:
  "i \<le> max (length xs) (length ys) \<Longrightarrow>
   isVersionAtLeast_loop (map Num xs) (map Num ys) i
     = geq_list (drop i (pad_zeros (max (length xs) (length ys)) xs))
                (drop i (pad_zeros (max (length xs) (length ys)) ys))"
proof (induction "max (length xs) (length ys) - i" arbitrary: i)
  case 0
  then have "i = max (length xs) (length ys)" by arith
  then show ?case
    by (subst isVersionAtLeast_loop.simps) (simp add: pad_zeros_def)
next
  case (Suc k)
  let ?n = "max (length xs) (length ys)"
  from Suc.hyps(2) have lt: "i < ?n" by arith
  have lx: "length (pad_zeros ?n xs) = ?n" and ly: "length (pad_zeros ?n ys) = ?n"
    by (auto simp: pad_zeros_def)
  have dx: "drop i (pad_zeros ?n xs) = pad_zeros ?n xs ! i # drop (Suc i) (pad_zeros ?n xs)"
    using lt lx by (metis Cons_nth_drop_Suc)
  have dy: "drop i (pad_zeros ?n ys) = pad_zeros ?n ys ! i # drop (Suc i) (pad_zeros ?n ys)"
    using lt ly by (metis Cons_nth_drop_Suc)
  have ih: "isVersionAtLeast_loop (map Num xs) (map Num ys) (Suc i)
         = geq_list (drop (Suc i) (pad_zeros ?n xs)) (drop (Suc i) (pad_zeros ?n ys))"
    using Suc.hyps(1)[of "Suc i"] Suc.hyps(2) lt by simp
  have step: "isVersionAtLeast_loop (map Num xs) (map Num ys) i =
      (if pad_zeros ?n xs ! i > pad_zeros ?n ys ! i then True
       else if pad_zeros ?n xs ! i < pad_zeros ?n ys ! i then False
       else isVersionAtLeast_loop (map Num xs) (map Num ys) (Suc i))"
    using lt by (subst isVersionAtLeast_loop.simps) (simp add: or_zero_pad[OF lt] js_lt_def)
  show ?case
    unfolding step ih by (subst dx, subst dy) simp
qed

lemma Number_js_exact:
  "list_all is_digit w \<Longrightarrow> decimal_value w < 2 ^ 53 \<Longrightarrow> Number_js w = Num (decimal_value w)"
  by (simp add: Number_js_def round_to_double_def)

lemma parts_exact:
  assumes "decimal_version s" "exact_version s"
  shows "map Number_js (split_dot s) = map Num (version_components s)"
  using assms unfolding decimal_version_def exact_version_def version_components_def
  by (induction "split_dot s") (auto simp: Number_js_exact list_all_iff)

lemma isVersionAtLeast_geq_list:
  assumes "decimal_version a" "exact_version a" "decimal_version b" "exact_version b"
  shows "isVersionAtLeast a b =
     geq_list (pad_zeros (max (length (version_components a)) (length (version_components b))) (version_components a))
              (pad_zeros (max (length (version_components a)) (length (version_components b))) (version_components b))"
    unfolding isVersionAtLeast_def parts_exact[OF assms(1,2)] parts_exact[OF assms(3,4)]
    using loop_geq[of 0 "version_components a" "version_components b"] by simp

lemma small_versions:
  "decimal_version ''9.0.0''" "exact_version ''9.0.0''"
  "decimal_version ''8.9.9''" "exact_version ''8.9.9''"
  "decimal_version ''9.0.1''" "exact_version ''9.0.1''"
  "decimal_version ''8.9.0''" "exact_version ''8.9.0''"
  "decimal_version ''9.1.0''" "exact_version ''9.1.0''"
  by (simp_all add: decimal_version_def exact_version_def version_components_def is_digit_def
      decimal_value_def digit_val_def)


text \<open>
  Claim C5, as amended. For version strings \<open>a\<close> and \<open>b\<close> whose dot-separated components
  are non-empty strings of decimal digits with values below \<open>2^53\<close>,
  \<open>isVersionAtLeast a b\<close> is true exactly when the components of \<open>a\<close>, padded with
  zeros to the length of the longer list, are lexicographically greater than or equal to
  those of \<open>b\<close>. The witness instantiates it at the three examples of the claim:
  equal versions, "8.9.9" against "9.0.0" and "9.0.1" against "9.0.0".
\<close>

theorem isVersionAtLeast_lexicographic:
  assumes "decimal_version a" "exact_version a" "decimal_version b" "exact_version b"
  shows "isVersionAtLeast a b = lex_geq (version_components a) (version_components b)"
  unfolding isVersionAtLeast_geq_list[OF assms]
  by (subst geq_list_lexord) (auto simp: pad_zeros_def lex_geq_def Let_def)

theorem isVersionAtLeast_lexicographic_witness:
  "isVersionAtLeast ''9.0.0'' ''9.0.0'' \<and> \<not> isVersionAtLeast ''8.9.9'' ''9.0.0''
   \<and> isVersionAtLeast ''9.0.1'' ''9.0.0''"
  using isVersionAtLeast_lexicographic [of "''9.0.0''" "''9.0.0''"]
        isVersionAtLeast_lexicographic [of "''8.9.9''" "''9.0.0''"]
        isVersionAtLeast_lexicographic [of "''9.0.1''" "''9.0.0''"]
  by (simp add: small_versions lex_geq_def version_components_def decimal_value_def digit_val_def
      pad_zeros_def)

lemma big_bitlen: "bitlen 9007199254740993 = 54" "bitlen 9007199254740992 = 54"
  by (simp_all add: bitlen.simps)

lemma big_round:
  "round_to_double 9007199254740993 = Num 9007199254740992"
  "round_to_double 9007199254740992 = Num 9007199254740992"
  by (simp_all add: round_to_double_def big_bitlen)

lemma big_value:
  "decimal_value ''9007199254740993'' = 9007199254740993"
  "decimal_value ''9007199254740992'' = 9007199254740992"
  by (simp_all add: decimal_value_def digit_val_def)

lemma big_Number:
  "Number_js ''9007199254740993'' = Num 9007199254740992"
  "Number_js ''9007199254740992'' = Num 9007199254740992"
  by (simp_all add: Number_js_def is_digit_def big_value big_round)

text \<open>
  Claim C5 as stated (every decimal component, of any size) fails: \<open>Number\<close> rounds
  9007199254740993 (\<open>2^53 + 1\<close>) to the double 9007199254740992, so the two versions below
  compare as equal and the function answers true, although the first is lexicographically
  smaller than the second.
\<close>

theorem isVersionAtLeast_counterexample:
  "decimal_version ''9007199254740992'' \<and> decimal_version ''9007199254740993''
   \<and> isVersionAtLeast ''9007199254740992'' ''9007199254740993''
   \<and> \<not> lex_geq (version_components ''9007199254740992'') (version_components ''9007199254740993'')"
  by (simp add: decimal_version_def is_digit_def isVersionAtLeast_def big_Number
      isVersionAtLeast_loop.simps at_index_def js_lt_def lex_geq_def version_components_def
      big_value pad_zeros_def)





lemma getConfig_Map_set: "getConfig (Map_set config ''apiKey'' k) = getConfig config"
  by (induction config) (auto simp: getConfig_def)

text \<open>
  Claim C10. The object returned by \<open>getConfig\<close> has no \<open>apiKey\<close> property, and setting
  the \<open>apiKey\<close> of a configuration to any value leaves the result of \<open>getConfig\<close>
  unchanged: two configurations that differ only in \<open>apiKey\<close> give equal results.
\<close>

theorem getConfig_hides_apiKey:
  "Map_get (getConfig config) ''apiKey'' = None
   \<and> getConfig (Map_set config ''apiKey'' k) = getConfig config"
  by (simp add: getConfig_Map_set)
     (simp add: Map_get_def getConfig_def map_of_eq_None_iff image_iff)

section \<open>Response normalisation: proofs\<close>

lemma canonical_has_fields: "canonical_envelope body \<Longrightarrow> has_envelope_fields body"
  unfolding canonical_envelope_def has_envelope_fields_def
  by (cases "get_prop body ''meta''"; cases "get_prop body ''data''") auto

lemma fields_truthy: "has_envelope_fields body \<Longrightarrow> truthy body"
  unfolding has_envelope_fields_def by (cases body) auto

lemma array_no_fields: "isArray body \<Longrightarrow> \<not> has_envelope_fields body"
  unfolding has_envelope_fields_def by (cases body) auto

lemma normalizeBody_cases:
  "normalizeBody body =
     (if has_envelope_fields body then body
      else if isArray body then wrapped body else wrapped (JArr [body]))"
  using fields_truthy[of body]
  by (auto simp: normalizeBody_def wrapped_def has_envelope_fields_def)

lemma request_methods_normalize:
  "f \<in> set request_methods \<Longrightarrow> f (Inr body) = Inr (normalizeBody body)"
  by (auto simp: request_methods_def client_get_def client_post_def client_put_def client_delete_def)

text \<open>
  Claim C7, as amended. For each of the request methods \<open>get\<close>, \<open>post\<close>, \<open>put\<close> and
  \<open>delete\<close> and every response body: a body with a truthy \<open>meta\<close> and a truthy \<open>data\<close>
  property, as every canonical \<open>{meta, data}\<close> envelope has, is returned unchanged; any
  other body is wrapped into the envelope whose \<open>meta\<close> is the synthetic success marker
  (\<open>rc = "ok"\<close>) and whose \<open>data\<close> is the body itself when the body is an array, and the
  single-element list that holds the body otherwise.
\<close>

theorem response_normalisation:
  assumes "f \<in> set request_methods"
  shows "(has_envelope_fields body \<longrightarrow> f (Inr body) = Inr body)
       \<and> (canonical_envelope body \<longrightarrow> has_envelope_fields body)
       \<and> (isArray body \<longrightarrow> f (Inr body) = Inr (wrapped body))
       \<and> (\<not> has_envelope_fields body \<and> \<not> isArray body
          \<longrightarrow> f (Inr body) = Inr (wrapped (JArr [body])))
       \<and> get_prop (get_prop (wrapped d) ''meta'') ''rc'' = JStr ''ok''"
  using request_methods_normalize[OF assms, of body] canonical_has_fields[of body]
    array_no_fields[of body]
  by (auto simp: normalizeBody_cases wrapped_def success_meta_def)

theorem response_normalisation_witness:
  "client_get (Inr (JObj [(''meta'', JObj [(''rc'', JStr ''ok''), (''msg'', JStr [])]), (''data'', JArr [JNum 7])]))
     = Inr (JObj [(''meta'', JObj [(''rc'', JStr ''ok''), (''msg'', JStr [])]), (''data'', JArr [JNum 7])])
   \<and> client_post (Inr (JObj [(''name'', JStr ''UDR'')])) = Inr (wrapped (JArr [JObj [(''name'', JStr ''UDR'')]]))
   \<and> client_put (Inr (JArr [JNum 1, JNum 2])) = Inr (wrapped (JArr [JNum 1, JNum 2]))
   \<and> client_delete (Inr JNull) = Inr (wrapped (JArr [JNull]))"
  using response_normalisation [of client_get "JObj [(''meta'', JObj [(''rc'', JStr ''ok''), (''msg'', JStr [])]), (''data'', JArr [JNum 7])]"]
        response_normalisation [of client_post "JObj [(''name'', JStr ''UDR'')]"]
        response_normalisation [of client_put "JArr [JNum 1, JNum 2]"]
        response_normalisation [of client_delete "JNull"]
  by (simp add: request_methods_def has_envelope_fields_def)

text \<open>
  Claim C7 as stated (every body that is not an envelope becomes a single-element data
  list) fails for a body that is an array: the array itself becomes the data list.
\<close>

theorem response_normalisation_counterexample:
  "\<not> canonical_envelope (JArr [JNum 1, JNum 2])
   \<and> client_get (Inr (JArr [JNum 1, JNum 2])) \<noteq> Inr (wrapped (JArr [JArr [JNum 1, JNum 2]]))
   \<and> client_get (Inr (JArr [JNum 1, JNum 2])) = Inr (wrapped (JArr [JNum 1, JNum 2]))"
  by (simp add: canonical_envelope_def client_get_def normalizeBody_def wrapped_def)

section \<open>Retry: proofs\<close>

lemma withRetry_loop_success:
  "int attempt < maxAttempts c \<Longrightarrow> operation attempt = Inr v \<Longrightarrow>
   withRetry_loop c operation random attempt lastError slept
     = \<lparr>outcome = Inr v, attempts = Suc attempt, delays = slept\<rparr>"
  by (subst withRetry_loop.simps) simp

lemma withRetry_loop_stop:
  "int attempt < maxAttempts c \<Longrightarrow> operation attempt = Inl err \<Longrightarrow>
   int (Suc attempt) \<ge> maxAttempts c \<or> \<not> should_retry c err \<Longrightarrow>
   withRetry_loop c operation random attempt lastError slept
     = \<lparr>outcome = Inl (Some err), attempts = Suc attempt, delays = slept\<rparr>"
  by (subst withRetry_loop.simps) auto

lemma withRetry_loop_retry:
  "int (Suc attempt) < maxAttempts c \<Longrightarrow> operation attempt = Inl err \<Longrightarrow> should_retry c err \<Longrightarrow>
   withRetry_loop c operation random attempt lastError slept
     = withRetry_loop c operation random (Suc attempt) (Some err)
         (slept @ [backoff_delay c (Suc attempt) + random (length slept) * 1000])"
  by (subst withRetry_loop.simps) auto

lemma withRetry_loop_delays:
  "(\<forall>i. 0 \<le> random i \<and> random i < 1) \<Longrightarrow>
     length slept = attempt \<Longrightarrow> (\<And>j. j < length slept \<Longrightarrow> delay_ok c j (slept ! j)) \<Longrightarrow>
     j < length (delays (withRetry_loop c operation random attempt lastError slept)) \<Longrightarrow>
     delay_ok c j (delays (withRetry_loop c operation random attempt lastError slept) ! j)"
proof (induction c operation random attempt lastError slept rule: withRetry_loop.induct)
  case (1 c operation random attempt lastError slept)
  show ?case
  proof (cases "int attempt < maxAttempts c")
    case False
    then have "withRetry_loop c operation random attempt lastError slept
        = \<lparr>outcome = Inl lastError, attempts = attempt, delays = slept\<rparr>"
      by (subst withRetry_loop.simps) simp
    then show ?thesis using 1(2-) by simp
  next
    case lt: True
    show ?thesis
    proof (cases "operation attempt")
      case (Inr v)
      then show ?thesis using lt 1(2-) by (simp add: withRetry_loop_success)
    next
      case (Inl err)
      show ?thesis
      proof (cases "int (attempt + 1) \<ge> maxAttempts c \<or> \<not> should_retry c err")
        case True
        then show ?thesis using lt Inl 1(2-) by (simp add: withRetry_loop_stop)
      next
        case False
        let ?d = "backoff_delay c (Suc attempt) + random (length slept) * 1000"
        have step: "withRetry_loop c operation random attempt lastError slept
           = withRetry_loop c operation random (Suc attempt) (Some err) (slept @ [?d])"
          using False Inl withRetry_loop_retry[of attempt c operation err random lastError slept]
          by simp
        have new: "delay_ok c (length slept) ?d"
          unfolding delay_ok_def using 1(2,3)
          by (intro exI[of _ "random (length slept) * 1000"]) auto
        have inv: "\<And>j. j < length (slept @ [?d]) \<Longrightarrow> delay_ok c j ((slept @ [?d]) ! j)"
          using 1(4) new by (auto simp: nth_append less_Suc_eq)
        have "delay_ok c j
           (delays (withRetry_loop c operation random (attempt + 1) (Some err)
              (slept @ [backoff_delay c (attempt + 1) + random (length slept) * 1000])) ! j)"
        proof (rule "1.IH"[OF lt Inl False 1(2)])
          show "length (slept @ [backoff_delay c (attempt + 1) + random (length slept) * 1000])
                  = attempt + 1"
            using 1(3) by simp
          show "\<And>j. j < length (slept @ [backoff_delay c (attempt + 1) + random (length slept) * 1000])
                 \<Longrightarrow> delay_ok c j
                   ((slept @ [backoff_delay c (attempt + 1) + random (length slept) * 1000]) ! j)"
            using inv by simp
          show "j < length (delays (withRetry_loop c operation random (attempt + 1) (Some err)
              (slept @ [backoff_delay c (attempt + 1) + random (length slept) * 1000])))"
            using 1(5) unfolding step by simp
        qed
        then show ?thesis unfolding step by simp
      qed
    qed
  qed
qed

lemma withRetry_loop_count:
  "length slept = attempt \<Longrightarrow> int attempt < maxAttempts c \<Longrightarrow>
   length (delays (withRetry_loop c operation random attempt lastError slept)) + 1
     = attempts (withRetry_loop c operation random attempt lastError slept)"
proof (induction c operation random attempt lastError slept rule: withRetry_loop.induct)
  case (1 c operation random attempt lastError slept)
  show ?case
  proof (cases "operation attempt")
    case (Inr v)
    then show ?thesis using 1(2,3) by (simp add: withRetry_loop_success)
  next
    case (Inl err)
    show ?thesis
    proof (cases "int (attempt + 1) \<ge> maxAttempts c \<or> \<not> should_retry c err")
      case True
      then show ?thesis using Inl 1(2,3) by (simp add: withRetry_loop_stop)
    next
      case False
      then show ?thesis
        using "1.IH"[OF 1(3) Inl False] 1(2) Inl
        by (simp add: withRetry_loop_retry)
    qed
  qed
qed


lemma merged_defaults:
  "p_exponentialBackoff config = None \<Longrightarrow> exponentialBackoff (merge_config defaultRetryConfig config)"
  "p_retryCondition config = None \<Longrightarrow>
     should_retry (merge_config defaultRetryConfig config) err = default_retryCondition err"
  by (simp_all add: merge_config_def defaultRetryConfig_def should_retry_def)

text \<open>
  Claim C6. With the default retry condition and exponential backoff (the configuration
  may override \<open>maxAttempts\<close>, \<open>baseDelay\<close> and \<open>maxDelay\<close>; by default \<open>maxAttempts\<close> is
  3) and a random source in \<open>[0, 1)\<close>: an operation that fails twice with a retryable
  error and succeeds on its third call gives success after exactly 3 calls; an operation
  that fails with an error that is not retryable is called exactly once and its error
  propagates; the \<open>N\<close>-th delay, slept after \<open>N\<close> failed attempts and before attempt
  \<open>N + 1\<close>, is \<open>min(maxDelay, baseDelay * 2^(N-1))\<close> plus a jitter in \<open>[0, 1000)\<close>; and
  one delay is slept between any two consecutive calls.
\<close>

theorem withRetry_behaviour:
  fixes operation :: "nat \<Rightarrow> thrown + 'a"
  assumes defaults: "p_exponentialBackoff config = None" "p_retryCondition config = None"
    and rnd: "\<forall>i. 0 \<le> random i \<and> random i < 1"
    and c: "c = merge_config defaultRetryConfig config"
    and r: "r = withRetry operation config random"
  shows "(3 \<le> maxAttempts c \<and> operation 0 = Inl e1 \<and> default_retryCondition e1
            \<and> operation 1 = Inl e2 \<and> default_retryCondition e2 \<and> operation 2 = Inr v
          \<longrightarrow> outcome r = Inr v \<and> attempts r = 3)
       \<and> (1 \<le> maxAttempts c \<and> operation 0 = Inl err \<and> \<not> default_retryCondition err
          \<longrightarrow> outcome r = Inl (Some err) \<and> attempts r = 1)
       \<and> (1 \<le> N \<and> N \<le> length (delays r)
          \<longrightarrow> (\<exists>jitter. 0 \<le> jitter \<and> jitter < 1000
                \<and> delays r ! (N - 1) = min (maxDelay c) (baseDelay c * 2 ^ (N - 1)) + jitter))
       \<and> (1 \<le> maxAttempts c \<longrightarrow> length (delays r) + 1 = attempts r)"
proof (intro conjI impI)
  note sr = merged_defaults(2)[OF defaults(2), folded c]
  assume h: "3 \<le> maxAttempts c \<and> operation 0 = Inl e1 \<and> default_retryCondition e1
       \<and> operation 1 = Inl e2 \<and> default_retryCondition e2 \<and> operation 2 = Inr v"
  then have ops: "operation 0 = Inl e1" "operation (Suc 0) = Inl e2"
      "operation (Suc (Suc 0)) = Inr v" "should_retry c e1" "should_retry c e2"
      "3 \<le> maxAttempts c"
    by (simp_all add: sr numeral_2_eq_2)
  let ?d1 = "backoff_delay c (Suc 0) + random 0 * 1000"
  let ?d2 = "backoff_delay c (Suc (Suc 0)) + random (Suc 0) * 1000"
  have s0: "withRetry_loop c operation random 0 None []
      = withRetry_loop c operation random (Suc 0) (Some e1) [?d1]"
    using ops withRetry_loop_retry[of 0 c operation e1 random None "[]"] by simp
  have s1: "withRetry_loop c operation random (Suc 0) (Some e1) [?d1]
      = withRetry_loop c operation random (Suc (Suc 0)) (Some e2) [?d1, ?d2]"
    using ops withRetry_loop_retry[of "Suc 0" c operation e2 random "Some e1" "[?d1]"] by simp
  have s2: "withRetry_loop c operation random (Suc (Suc 0)) (Some e2) [?d1, ?d2]
      = \<lparr>outcome = Inr v, attempts = Suc (Suc (Suc 0)), delays = [?d1, ?d2]\<rparr>"
    using ops withRetry_loop_success[of "Suc (Suc 0)" c operation v random "Some e2" "[?d1, ?d2]"]
    by simp
  have "withRetry_loop c operation random 0 None []
      = \<lparr>outcome = Inr v, attempts = Suc (Suc (Suc 0)), delays = [?d1, ?d2]\<rparr>"
    using s0 s1 s2 by simp
  then show "outcome r = Inr v" "attempts r = 3"
    unfolding r withRetry_def c[symmetric] by simp_all
next
  note sr = merged_defaults(2)[OF defaults(2), folded c]
  assume h: "1 \<le> maxAttempts c \<and> operation 0 = Inl err \<and> \<not> default_retryCondition err"
  have "withRetry_loop c operation random 0 None []
      = \<lparr>outcome = Inl (Some err), attempts = 1, delays = []\<rparr>"
    using h withRetry_loop_stop[of 0 c operation err random None "[]"] by (simp add: sr)
  then show "outcome r = Inl (Some err)" "attempts r = 1"
    unfolding r withRetry_def c[symmetric] by simp_all
next
  assume h: "1 \<le> N \<and> N \<le> length (delays r)"
  then have "N - 1 < length (delays (withRetry_loop c operation random 0 None []))"
    unfolding r withRetry_def c[symmetric] by arith
  from withRetry_loop_delays[OF rnd _ _ this]
  have "delay_ok c (N - 1) (delays r ! (N - 1))"
    unfolding r withRetry_def c[symmetric] by simp
  moreover have "backoff_delay c (N - 1 + 1) = min (maxDelay c) (baseDelay c * 2 ^ (N - 1))"
    using merged_defaults(1)[OF defaults(1), folded c] h by (simp add: backoff_delay_def min.commute)
  ultimately show "\<exists>jitter. 0 \<le> jitter \<and> jitter < 1000
       \<and> delays r ! (N - 1) = min (maxDelay c) (baseDelay c * 2 ^ (N - 1)) + jitter"
    unfolding delay_ok_def by simp
next
  assume "1 \<le> maxAttempts c"
  then show "length (delays r) + 1 = attempts r"
    unfolding r withRetry_def c[symmetric]
    using withRetry_loop_count[of "[]" 0 c operation random None] by simp
qed

lemma default_merge:
  "merge_config defaultRetryConfig empty_config = defaultRetryConfig"
  by (simp add: merge_config_def empty_config_def defaultRetryConfig_def)

lemma flaky_run:
  "withRetry flaky empty_config half = \<lparr>outcome = Inr 42, attempts = 3, delays = [1500, 2500]\<rparr>"
  unfolding withRetry_def default_merge
  by (simp add: withRetry_loop.simps defaultRetryConfig_def flaky_def
      unreachable_def should_retry_def default_retryCondition_def backoff_delay_def half_def)

theorem withRetry_behaviour_witness:
  "outcome (withRetry flaky empty_config half) = Inr 42
   \<and> attempts (withRetry flaky empty_config half) = 3
   \<and> (\<exists>jitter. 0 \<le> jitter \<and> jitter < 1000
         \<and> delays (withRetry flaky empty_config half) ! 1 = min 10000 (1000 * 2 ^ 1) + jitter)
   \<and> outcome (withRetry invalid_key empty_config half) = Inl (Some key_error)
   \<and> attempts (withRetry invalid_key empty_config half) = 1"
proof -
  have d: "p_exponentialBackoff empty_config = None" "p_retryCondition empty_config = None"
    by (simp_all add: empty_config_def)
  have rnd: "\<forall>i. 0 \<le> half i \<and> half i < 1" by (simp add: half_def)
  have m: "maxAttempts defaultRetryConfig = 3" "baseDelay defaultRetryConfig = 1000"
    "maxDelay defaultRetryConfig = 10000"
    by (simp_all add: defaultRetryConfig_def)
  have f: "flaky 0 = Inl unreachable" "flaky (Suc 0) = Inl unreachable" "flaky 2 = Inr 42"
      "default_retryCondition unreachable" "unreachable \<noteq> key_error"
    by (simp_all add: flaky_def default_retryCondition_def unreachable_def key_error_def)
  have k: "invalid_key 0 = Inl key_error" "\<not> default_retryCondition key_error"
    by (simp_all add: invalid_key_def default_retryCondition_def key_error_def)
  have len: "length (delays (withRetry flaky empty_config half)) = 2"
    by (simp add: flaky_run)
  show ?thesis
    using withRetry_behaviour [OF d rnd default_merge [symmetric] refl,
            of flaky unreachable unreachable 42 key_error 2]
          withRetry_behaviour [OF d rnd default_merge [symmetric] refl,
            of invalid_key unreachable unreachable 42 key_error 0]
    by (simp add: m f k len)
qed

section \<open>Capability cache: proofs\<close>

lemma isCacheValid_state:
  "snd (isCacheValid e s) = s \<or> snd (isCacheValid e s) = s\<lparr>ticks := ticks s + 1\<rparr>"
  by (auto simp: isCacheValid_def now_def Let_def split: option.splits)

lemma isCacheValid_fresh:
  "cachedCapabilities s = Some caps \<Longrightarrow> cache_fresh e s \<Longrightarrow>
   isCacheValid e s = (True, s\<lparr>ticks := ticks s + 1\<rparr>)"
  by (auto simp: isCacheValid_def cache_fresh_def now_def cacheValidityMinutes_def
      split: option.splits)

lemma detect_hit:
  "cachedCapabilities s = Some caps \<Longrightarrow> cache_fresh e s \<Longrightarrow>
   detectCapabilities e s = (Inr caps, s\<lparr>ticks := ticks s + 1\<rparr>)"
  by (simp add: detectCapabilities_def isCacheValid_fresh)

lemma detect_success_cached:
  "detectCapabilities e s = (Inr caps, s') \<Longrightarrow> cachedCapabilities s' = Some caps"
  unfolding detectCapabilities_def getSystemInfo_def now_def
  using isCacheValid_state[of e s]
  by (auto simp: Let_def split: prod.splits bool.splits option.splits sum.splits)

lemma detect_miss_probes:
  "\<not> fst (isCacheValid e s) \<Longrightarrow> probes (snd (detectCapabilities e s)) = probes s + 1"
  unfolding detectCapabilities_def getSystemInfo_def now_def
  using isCacheValid_state[of e s]
  by (auto simp: Let_def split: prod.splits bool.splits option.splits sum.splits)

lemma clearCache_invalid: "isCacheValid e (clearCache s) = (False, clearCache s)"
  by (simp add: isCacheValid_def clearCache_def)

lemma detect_tools: "tools (snd (detectCapabilities e s)) = tools s"
  unfolding detectCapabilities_def getSystemInfo_def now_def
  using isCacheValid_state[of e s]
  by (auto simp: Let_def split: prod.splits bool.splits option.splits sum.splits)

text \<open>
  Claim C8, as amended. If a call of \<open>detectCapabilities\<close> that finds no valid cache
  succeeds, and the next call reads the clock less than 60 minutes after the cache
  timestamp of the first, then the second call returns the same snapshot, and the two
  calls together make exactly one probe. \<open>forceDetection\<close> itself always makes a new
  probe, whatever the age of the cache, and so does a call of \<open>detectCapabilities\<close>
  right after \<open>clearCache\<close>.
\<close>

theorem capability_cache:
  "(\<not> fst (isCacheValid e s) \<and> detectCapabilities e s = (Inr caps, s') \<and> cache_fresh e s'
      \<longrightarrow> detectCapabilities e s' = (Inr caps, s'\<lparr>ticks := ticks s' + 1\<rparr>)
          \<and> probes s' = probes s + 1)
   \<and> probes (snd (forceDetection e s)) = probes s + 1
   \<and> probes (snd (detectCapabilities e (clearCache s))) = probes s + 1"
proof (intro conjI impI)
  assume h: "\<not> fst (isCacheValid e s) \<and> detectCapabilities e s = (Inr caps, s') \<and> cache_fresh e s'"
  then show "detectCapabilities e s' = (Inr caps, s'\<lparr>ticks := ticks s' + 1\<rparr>)"
    using detect_hit[OF detect_success_cached] by blast
  show "probes s' = probes s + 1"
    using h detect_miss_probes[of e s] by simp
next
  have "probes (snd (detectCapabilities e (clearCache s))) = probes (clearCache s) + 1"
    by (rule detect_miss_probes) (simp add: clearCache_invalid)
  then show "probes (snd (forceDetection e s)) = probes s + 1"
    "probes (snd (detectCapabilities e (clearCache s))) = probes s + 1"
    by (simp_all add: forceDetection_def clearCache_def)
qed

lemma first_detection:
  "detectCapabilities env_online initial_state =
     (Inr (analyzeCapabilities sample_info),
      initial_state\<lparr>ticks := 1, probes := 1,
        cachedCapabilities := Some (analyzeCapabilities sample_info), cacheTimestamp := Some 0\<rparr>)"
  by (simp add: detectCapabilities_def isCacheValid_def initial_state_def getSystemInfo_def
      now_def env_online_def env_offline_def Let_def)

theorem capability_cache_witness:
  "detectCapabilities env_online (snd (detectCapabilities env_online initial_state))
     = (Inr (analyzeCapabilities sample_info),
        initial_state\<lparr>ticks := 2, probes := 1,
          cachedCapabilities := Some (analyzeCapabilities sample_info), cacheTimestamp := Some 0\<rparr>)
   \<and> probes (snd (detectCapabilities env_online initial_state)) = probes initial_state + 1"
  using capability_cache [of env_online initial_state "analyzeCapabilities sample_info"
      "initial_state\<lparr>ticks := 1, probes := 1,
        cachedCapabilities := Some (analyzeCapabilities sample_info), cacheTimestamp := Some 0\<rparr>"]
  by (simp add: first_detection)
     (simp add: isCacheValid_def cache_fresh_def initial_state_def env_online_def env_offline_def)

text \<open>
  Claim C8 as stated (a call of \<open>detectCapabilities\<close> made immediately after
  \<open>forceDetection\<close> always makes a new probe) fails: \<open>forceDetection\<close> refills the cache,
  and the call that follows it is answered from that cache without a probe.
\<close>

theorem capability_cache_counterexample:
  "probes (snd (detectCapabilities env_online (snd (forceDetection env_online initial_state))))
     = probes (snd (forceDetection env_online initial_state))"
  by (simp add: forceDetection_def clearCache_def detectCapabilities_def isCacheValid_def
      initial_state_def getSystemInfo_def now_def env_online_def env_offline_def
      cacheValidityMinutes_def Let_def)

section \<open>Tool registry: proofs\<close>

lemma getAllTools_alt:
  "getAllTools s = map (\<lambda>kv. tool (snd kv)) (filter (\<lambda>kv. enabled (snd kv)) (tools s))"
  by (simp add: getAllTools_def filter_map comp_def)

text \<open>
  Claim C3, as amended. Without a connection \<open>getToolsForMCP\<close> returns the tool records
  of all registered entries, enabled or disabled, in registration order. With a
  connection it returns the records of the enabled entries that capability detection
  reports as available; when capability detection fails it returns the records of all
  enabled entries.
\<close>

theorem catalog_listing:
  "(\<not> clientConnected e
      \<longrightarrow> getToolsForMCP e s = (map (\<lambda>kv. to_Tool (tool (snd kv))) (tools s), s))
   \<and> (clientConnected e \<and> detectCapabilities e s = (Inr caps, s')
      \<longrightarrow> getToolsForMCP e s =
            (map (\<lambda>kv. to_Tool (tool (snd kv)))
               (filter (\<lambda>kv. enabled (snd kv) \<and> is_available (availability_of caps) (fst kv))
                  (tools s)), s'))
   \<and> (clientConnected e \<and> detectCapabilities e s = (Inl err, s')
      \<longrightarrow> getToolsForMCP e s =
            (map (\<lambda>kv. to_Tool (tool (snd kv))) (filter (\<lambda>kv. enabled (snd kv)) (tools s)), s'))"
proof (intro conjI impI)
  assume "\<not> clientConnected e"
  then show "getToolsForMCP e s = (map (\<lambda>kv. to_Tool (tool (snd kv))) (tools s), s)"
    by (simp add: getToolsForMCP_def getAllToolsForDocumentation_def comp_def)
next
  assume h: "clientConnected e \<and> detectCapabilities e s = (Inr caps, s')"
  then have "tools s' = tools s" using detect_tools[of e s] by simp
  with h show "getToolsForMCP e s =
            (map (\<lambda>kv. to_Tool (tool (snd kv)))
               (filter (\<lambda>kv. enabled (snd kv) \<and> is_available (availability_of caps) (fst kv))
                  (tools s)), s')"
    by (simp add: getToolsForMCP_def getAvailableTools_def getToolAvailability_def comp_def)
next
  assume h: "clientConnected e \<and> detectCapabilities e s = (Inl err, s')"
  then have "tools s' = tools s" using detect_tools[of e s] by simp
  with h show "getToolsForMCP e s =
            (map (\<lambda>kv. to_Tool (tool (snd kv))) (filter (\<lambda>kv. enabled (snd kv)) (tools s)), s')"
    by (simp add: getToolsForMCP_def getAvailableTools_def getToolAvailability_def
        getAllTools_alt comp_def)
qed

lemma registry_with_tools:
  "tools (registry_with t) =
     [(name t, \<lparr>tool = t, registered = 0, enabled = True, usageCount = 0, lastUsed = None,
                 averageExecutionTime = 0, errorCount = 0, dependencies = extractDependencies t\<rparr>)]"
  by (simp add: registry_with_def register_def now_def initial_state_def env_offline_def
      addToCategory_def Let_def)

lemma registry_disabled_tools:
  "tools (registry_disabled t) =
     [(name t, \<lparr>tool = t, registered = 0, enabled = False, usageCount = 0, lastUsed = None,
                 averageExecutionTime = 0, errorCount = 0, dependencies = extractDependencies t\<rparr>)]"
  by (simp add: registry_disabled_def setToolEnabled_def Map_get_def registry_with_tools)

text \<open>
  Claim C3 as stated (without a connection, exactly the enabled entries) fails: a tool
  that was registered and then disabled is still listed when there is no connection,
  while the enabled catalog is empty.
\<close>

theorem catalog_listing_counterexample:
  "\<not> clientConnected env_offline
   \<and> fst (getToolsForMCP env_offline (registry_disabled test_tool)) = [to_Tool test_tool]
   \<and> map to_Tool (getAllTools (registry_disabled test_tool)) = []"
  by (simp add: getToolsForMCP_def getAllToolsForDocumentation_def getAllTools_def
      registry_disabled_tools env_offline_def)

lemma registry_with_detector:
  "cachedCapabilities (registry_with t) = None" "probes (registry_with t) = 0"
  by (simp_all add: registry_with_def register_def now_def initial_state_def addToCategory_def
      Let_def)

lemma detect_online:
  "fst (detectCapabilities env_online (registry_with t)) = Inr (analyzeCapabilities sample_info)"
  by (simp add: detectCapabilities_def isCacheValid_def registry_with_detector getSystemInfo_def
      now_def env_online_def env_offline_def Let_def)

lemma detect_failing:
  "fst (detectCapabilities env_failing (registry_with t))
     = Inl (detection_failed (OtherError ''timeout''))"
  by (simp add: detectCapabilities_def isCacheValid_def registry_with_detector getSystemInfo_def
      now_def env_failing_def env_online_def env_offline_def Let_def)

lemma connect_available:
  "is_available (availability_of caps) ''unifi_connect''"
  by (simp add: is_available_def availability_of_def tool_available_def)

theorem catalog_listing_witness:
  "getToolsForMCP env_offline (registry_disabled test_tool)
     = ([to_Tool test_tool], registry_disabled test_tool)
   \<and> fst (getToolsForMCP env_online (registry_with connect_tool)) = [to_Tool connect_tool]
   \<and> fst (getToolsForMCP env_failing (registry_with test_tool)) = [to_Tool test_tool]"
proof -
  have a: "\<not> clientConnected env_offline" "clientConnected env_online" "clientConnected env_failing"
    by (simp_all add: env_offline_def env_online_def env_failing_def)
  have b: "detectCapabilities env_online (registry_with connect_tool)
      = (Inr (analyzeCapabilities sample_info),
         snd (detectCapabilities env_online (registry_with connect_tool)))"
    using detect_online[of connect_tool] by (simp add: prod_eq_iff)
  have c: "detectCapabilities env_failing (registry_with test_tool)
      = (Inl (detection_failed (OtherError ''timeout'')),
         snd (detectCapabilities env_failing (registry_with test_tool)))"
    using detect_failing[of test_tool] by (simp add: prod_eq_iff)
  have n: "name connect_tool = ''unifi_connect''"
    by (simp add: connect_tool_def)
  from catalog_listing [where e = env_offline and s = "registry_disabled test_tool"] a(1)
  have p1: "getToolsForMCP env_offline (registry_disabled test_tool)
      = (map (\<lambda>kv. to_Tool (tool (snd kv))) (tools (registry_disabled test_tool)),
         registry_disabled test_tool)"
    by blast
  from catalog_listing [where e = env_online and s = "registry_with connect_tool"
            and caps = "analyzeCapabilities sample_info"
            and s' = "snd (detectCapabilities env_online (registry_with connect_tool))"] a(2) b
  have p2: "fst (getToolsForMCP env_online (registry_with connect_tool))
      = map (\<lambda>kv. to_Tool (tool (snd kv)))
          (filter (\<lambda>kv. enabled (snd kv)
                     \<and> is_available (availability_of (analyzeCapabilities sample_info)) (fst kv))
             (tools (registry_with connect_tool)))"
    by simp
  from catalog_listing [where e = env_failing and s = "registry_with test_tool"
            and err = "detection_failed (OtherError ''timeout'')"
            and s' = "snd (detectCapabilities env_failing (registry_with test_tool))"] a(3) c
  have p3: "fst (getToolsForMCP env_failing (registry_with test_tool))
      = map (\<lambda>kv. to_Tool (tool (snd kv)))
          (filter (\<lambda>kv. enabled (snd kv)) (tools (registry_with test_tool)))"
    by simp
  show ?thesis
    unfolding p1 p2 p3
    by (simp add: registry_disabled_tools registry_with_tools n connect_available)
qed

text \<open>
  Claim C2. In every registry state with no active connection, invoking a name that is
  not registered produces an error of kind \<open>TOOL_NOT_FOUND\<close>, and invoking a registered
  tool that is disabled and requires a connection produces an error of kind
  \<open>TOOL_DISABLED\<close>: the lookup and the disabled check come before the connection
  check. The error is thrown, and the state is unchanged.
\<close>

theorem precondition_order:
  assumes "\<not> clientConnected e"
  shows "(Map_get (tools s) toolName = None
           \<longrightarrow> (\<exists>err. executeTool e toolName params s = (Inl (McpError err), s)
                      \<and> code err = TOOL_NOT_FOUND))
       \<and> (Map_get (tools s) toolName = Some entry \<and> \<not> enabled entry
            \<and> requiresConnection (tool entry)
           \<longrightarrow> (\<exists>err. executeTool e toolName params s = (Inl (McpError err), s)
                      \<and> code err = TOOL_DISABLED))"
  by (auto simp: executeTool_def new_UniFiMCPError_def)

theorem precondition_order_witness:
  "(\<exists>err. executeTool env_offline ''non_existent'' (JObj []) (registry_disabled connected_tool)
            = (Inl (McpError err), registry_disabled connected_tool)
         \<and> code err = TOOL_NOT_FOUND)
   \<and> (\<exists>err. executeTool env_offline ''connected_tool'' (JObj []) (registry_disabled connected_tool)
            = (Inl (McpError err), registry_disabled connected_tool)
         \<and> code err = TOOL_DISABLED)"
proof -
  have off: "\<not> clientConnected env_offline" by (simp add: env_offline_def)
  have n: "name connected_tool = ''connected_tool''" "requiresConnection connected_tool"
    by (simp_all add: connected_tool_def)
  show ?thesis
    using precondition_order [OF off, where s = "registry_disabled connected_tool"
            and toolName = "''non_existent''" and params = "JObj []"]
          precondition_order [OF off, where s = "registry_disabled connected_tool"
            and toolName = "''connected_tool''" and params = "JObj []" and entry =
            "\<lparr>tool = connected_tool, registered = 0, enabled = False, usageCount = 0,
              lastUsed = None, averageExecutionTime = 0, errorCount = 0,
              dependencies = extractDependencies connected_tool\<rparr>"]
    by (simp add: registry_disabled_tools Map_get_def n)
qed

lemma validateFeature_state: "snd (validateFeature e f s) = snd (detectCapabilities e s)"
  by (simp add: validateFeature_def split: prod.splits sum.splits)

lemma validateDependencies_loop_tools:
  "tools (snd (validateDependencies_loop e ds s)) = tools s"
proof (induction ds arbitrary: s)
  case Nil
  show ?case by simp
next
  case (Cons d ds)
  show ?case
    using Cons.IH detect_tools
    by (auto simp: validateFeature_state Let_def split: prod.splits sum.splits if_splits
        dest!: arg_cong[where f=snd])
qed

lemma run_handler_tools: "tools (snd (run_handler e entry toolName params s)) = tools s"
  using validateDependencies_loop_tools
  by (auto simp: run_handler_def validateDependencies_def split: prod.splits sum.splits
      dest!: arg_cong[where f=snd])

lemma Map_get_set: "Map_get (Map_set kvs k v) k = Some v"
  by (induction kvs) (auto simp: Map_get_def)

lemma updateUsageStats_entry:
  assumes "Map_get (tools s) toolName = Some entry"
  shows "Map_get (tools (updateUsageStats e toolName latency ok s)) toolName =
     Some (entry\<lparr>usageCount := usageCount entry + 1,
                 lastUsed := Some (clock e (ticks s)),
                 averageExecutionTime :=
                   (averageExecutionTime entry * of_nat (usageCount entry) + of_int latency)
                     / of_nat (usageCount entry + 1),
                 errorCount := (if ok then errorCount entry else errorCount entry + 1)\<rparr>)"
  using assms by (simp add: updateUsageStats_def now_def Let_def Map_get_set)

lemma execute_phase_statistics:
  assumes reg: "Map_get (tools s) toolName = Some entry"
    and run: "run_handler e entry toolName params (snd (now e s)) = (r, s2)"
    and ex: "execute_phase e entry toolName params s = (result, s')"
  shows "\<exists>entry'. Map_get (tools s') toolName = Some entry'
     \<and> usageCount entry' = usageCount entry + 1
     \<and> lastUsed entry' = Some (clock e (ticks s2 + 1))
     \<and> averageExecutionTime entry' =
         (averageExecutionTime entry * of_nat (usageCount entry' - 1)
            + of_int (clock e (ticks s2) - clock e (ticks s))) / of_nat (usageCount entry')
     \<and> errorCount entry' =
         errorCount entry + (case r of Inr res \<Rightarrow> (if success res then 0 else 1) | Inl err \<Rightarrow> 2)"
proof -
  have t2: "tools s2 = tools s"
    using run_handler_tools[of e entry toolName params "snd (now e s)"] run
    by (simp add: now_def)
  show ?thesis
  proof (cases r)
    case (Inr res)
    let ?s3 = "s2\<lparr>ticks := ticks s2 + 1\<rparr>"
    have g: "Map_get (tools ?s3) toolName = Some entry" using reg t2 by simp
    have "s' = snd (now e (updateUsageStats e toolName (clock e (ticks s2) - clock e (ticks s))
                     (success res) ?s3))"
      using ex run Inr by (auto simp: execute_phase_def now_def Let_def split: prod.splits)
    then have "Map_get (tools s') toolName =
        Map_get (tools (updateUsageStats e toolName (clock e (ticks s2) - clock e (ticks s))
                     (success res) ?s3)) toolName"
      by (simp add: now_def)
    then show ?thesis
      unfolding updateUsageStats_entry[OF g] using Inr by simp
  next
    case (Inl err)
    let ?entry1 = "entry\<lparr>errorCount := errorCount entry + 1\<rparr>"
    let ?s3 = "increment_errorCount toolName s2"
    let ?s4 = "?s3\<lparr>ticks := ticks ?s3 + 1\<rparr>"
    have tk: "ticks ?s3 = ticks s2" using reg t2 by (simp add: increment_errorCount_def)
    have g: "Map_get (tools ?s4) toolName = Some ?entry1"
      using reg t2 by (simp add: increment_errorCount_def Map_get_set)
    let ?s5 = "updateUsageStats e toolName (clock e (ticks s2) - clock e (ticks s)) False ?s4"
    have "tools s' = tools ?s5"
      using ex run Inl tk by (auto simp: execute_phase_def now_def Let_def split: prod.splits)
    then have "Map_get (tools s') toolName = Map_get (tools ?s5) toolName"
      by simp
    then show ?thesis
      unfolding updateUsageStats_entry[OF g] using Inl tk by simp
  qed
qed

lemma reaches_execution_executeTool:
  "reaches_execution e toolName s entry s1 \<Longrightarrow>
   executeTool e toolName params s =
     (Inr (fst (execute_phase e entry toolName params s1)),
      snd (execute_phase e entry toolName params s1))"
  by (auto simp: reaches_execution_def executeTool_def split: prod.splits if_splits)

lemma reaches_execution_tools:
  "reaches_execution e toolName s entry s1 \<Longrightarrow> tools s1 = tools s"
  using detect_tools[of e s] validateFeature_state[of e _ s]
  by (auto simp: reaches_execution_def split: if_splits dest!: arg_cong[where f=snd])

text \<open>
  Claim C4 fails on the code in its last part. For every invocation that reaches the
  execution phase, the entry's \<open>usageCount\<close> increases by one, \<open>lastUsed\<close> is set to a
  reading of the clock, and \<open>averageExecutionTime\<close> becomes
  \<open>(oldAvg * (n - 1) + latency) / n\<close> for the new count \<open>n\<close>, as the claim says. But
  \<open>errorCount\<close> increases by two, not by one, when the handler (or the dependency
  validation) throws: the \<open>catch\<close> block increments it and then calls
  \<open>updateUsageStats\<close> with \<open>success = false\<close>, which increments it again. A handler that
  returns a failure result is counted once. The witness runs a tool whose handler throws
  and a tool whose handler returns a failure result.
\<close>

theorem usage_statistics:
  assumes pre: "reaches_execution e toolName s entry s1"
    and run: "run_handler e entry toolName params (snd (now e s1)) = (r, s2)"
    and ex: "executeTool e toolName params s = (outcome', s')"
  shows "\<exists>entry'. Map_get (tools s') toolName = Some entry'
     \<and> usageCount entry' = usageCount entry + 1
     \<and> lastUsed entry' = Some (clock e (ticks s2 + 1))
     \<and> averageExecutionTime entry' =
         (averageExecutionTime entry * of_nat (usageCount entry' - 1)
            + of_int (clock e (ticks s2) - clock e (ticks s1))) / of_nat (usageCount entry')
     \<and> errorCount entry' =
         errorCount entry + (case r of Inr res \<Rightarrow> (if success res then 0 else 1) | Inl err \<Rightarrow> 2)"
proof -
  have reg: "Map_get (tools s1) toolName = Some entry"
    using pre reaches_execution_tools[OF pre] by (simp add: reaches_execution_def)
  have "execute_phase e entry toolName params s1 = (fst (execute_phase e entry toolName params s1), s')"
    using reaches_execution_executeTool[OF pre, of params] ex by simp
  from execute_phase_statistics[OF reg run this] show ?thesis .
qed

lemma fresh_reaches:
  "requiresVersion t = None \<Longrightarrow> \<not> requiresConnection t \<Longrightarrow>
   reaches_execution env_online (name t) (registry_with t)
     \<lparr>tool = t, registered = 0, enabled = True, usageCount = 0, lastUsed = None,
      averageExecutionTime = 0, errorCount = 0, dependencies = extractDependencies t\<rparr>
     (registry_with t)"
  by (simp add: reaches_execution_def registry_with_tools Map_get_def truthy_str_def)

lemma registry_with_deps:
  "dependencies_of (registry_with t) = [(name t, extractDependencies t)]"
  "ticks (registry_with t) = 1"
  by (simp_all add: registry_with_def register_def now_def initial_state_def addToCategory_def
      Let_def)

lemma fresh_run:
  "requiresVersion t = None \<Longrightarrow> \<not> requiresConnection t \<Longrightarrow> category t = CONNECTION \<Longrightarrow>
   run_handler env_online
     \<lparr>tool = t, registered = 0, enabled = True, usageCount = 0, lastUsed = None,
      averageExecutionTime = 0, errorCount = 0, dependencies = extractDependencies t\<rparr>
     (name t) (JObj []) (snd (now env_online (registry_with t)))
   = (handler t (JObj []), (registry_with t)\<lparr>ticks := 2\<rparr>)"
  by (simp add: run_handler_def validateDependencies_def registry_with_deps now_def
      Map_get_def extractDependencies_def truthy_str_def)

lemma fixture_tools:
  "requiresVersion failing_tool = None" "\<not> requiresConnection failing_tool"
  "category failing_tool = CONNECTION" "name failing_tool = ''failing_tool''"
  "handler failing_tool (JObj []) = Inl (OtherError ''boom'')"
  "requiresVersion refusing_tool = None" "\<not> requiresConnection refusing_tool"
  "category refusing_tool = CONNECTION" "name refusing_tool = ''refusing_tool''"
  "handler refusing_tool (JObj []) = Inr (test_result\<lparr>success := False\<rparr>)"
  by (simp_all add: failing_tool_def refusing_tool_def test_tool_def)

theorem usage_statistics_witness:
  "(\<exists>entry'. Map_get (tools (snd (executeTool env_online ''failing_tool'' (JObj [])
                                (registry_with failing_tool)))) ''failing_tool'' = Some entry'
      \<and> usageCount entry' = 1 \<and> lastUsed entry' = Some 3 \<and> averageExecutionTime entry' = 1
      \<and> errorCount entry' = 2)
   \<and> (\<exists>entry'. Map_get (tools (snd (executeTool env_online ''refusing_tool'' (JObj [])
                                (registry_with refusing_tool)))) ''refusing_tool'' = Some entry'
      \<and> usageCount entry' = 1 \<and> lastUsed entry' = Some 3 \<and> averageExecutionTime entry' = 1
      \<and> errorCount entry' = 1)"
  using usage_statistics [OF fresh_reaches [OF fixture_tools(1,2)]
            fresh_run [OF fixture_tools(1,2,3)], of
      "fst (executeTool env_online ''failing_tool'' (JObj []) (registry_with failing_tool))"
      "snd (executeTool env_online ''failing_tool'' (JObj []) (registry_with failing_tool))"]
        usage_statistics [OF fresh_reaches [OF fixture_tools(6,7)]
            fresh_run [OF fixture_tools(6,7,8)], of
      "fst (executeTool env_online ''refusing_tool'' (JObj []) (registry_with refusing_tool))"
      "snd (executeTool env_online ''refusing_tool'' (JObj []) (registry_with refusing_tool))"]
  by (auto simp: registry_with_deps fixture_tools test_result_def env_online_def env_offline_def)

lemma failing_result:
  "fst (executeTool env_online ''failing_tool'' (JObj []) (registry_with failing_tool))
     = Inr (error_result (OtherError ''boom'') 4 6)"
  using reaches_execution_executeTool [OF fresh_reaches [OF fixture_tools(1,2)], of "JObj []"]
        fresh_run [OF fixture_tools(1,2,3)]
  by (simp add: fixture_tools execute_phase_def now_def registry_with_deps Let_def
      increment_errorCount_def updateUsageStats_def registry_with_tools Map_get_def
      env_online_def env_offline_def split: prod.splits)

text \<open>
  Claim C1 fails on the code. The claim is that \<open>executeTool\<close> never throws and always
  returns a result object; the repository's own registry test expects a result with
  \<open>success = false\<close> for a name that is not registered and for a disabled tool. The code
  throws instead: for the registry of that test, an unknown name, a disabled tool and a
  tool that requires a missing connection each end in an exception that reaches the
  caller. Only a failure inside the execution phase, such as a handler that throws, is
  returned as a result object.
\<close>

theorem executeTool_throws:
  "executeTool env_online ''non_existent'' (JObj []) (registry_with test_tool)
     = (Inl (McpError (new_UniFiMCPError (''Tool '' @ quoted ''non_existent'' @ '' not found'')
                TOOL_NOT_FOUND (Some 404) JUndefined)),
        registry_with test_tool)
   \<and> executeTool env_online ''test_tool'' (JObj []) (registry_disabled test_tool)
     = (Inl (McpError (new_UniFiMCPError (''Tool '' @ quoted ''test_tool'' @ '' is disabled'')
                TOOL_DISABLED (Some 403) JUndefined)),
        registry_disabled test_tool)
   \<and> executeTool env_offline ''connected_tool'' (JObj []) (registry_with connected_tool)
     = (Inl (McpError (new_UniFiMCPError
                (''Tool '' @ quoted ''connected_tool'' @ '' requires an active UniFi connection'')
                CONNECTION_REQUIRED (Some 412) JUndefined)),
        registry_with connected_tool)
   \<and> fst (executeTool env_online ''failing_tool'' (JObj []) (registry_with failing_tool))
     = Inr (error_result (OtherError ''boom'') 4 6)"
  unfolding failing_result
  by (simp add: executeTool_def Map_get_def registry_with_tools registry_disabled_tools
      test_tool_def connected_tool_def env_offline_def)

end
